theory Spec2Isabelle
  imports Main "HOL-Library.AList"
begin

section \<open>Python strings\<close>

text \<open>
  A Python \<open>str\<close> is modelled as a \<open>string\<close> whose characters are the code points
  0 to 255, one \<open>char\<close> per code point, so that \<open>length\<close> is Python's \<open>len\<close>.
  The string methods below are the ones \<open>chunking.py\<close> calls, restricted to that
  range of code points.
\<close>

definition isspace :: "char \<Rightarrow> bool" where
  \<comment> \<open>\<open>str.isspace\<close> on one code point below 256\<close>
  "isspace c = (c \<in> set [CHR 0x09, CHR 0x0A, CHR 0x0B, CHR 0x0C, CHR 0x0D,
                           CHR 0x1C, CHR 0x1D, CHR 0x1E, CHR 0x1F, CHR 0x20,
                           CHR 0x85, CHR 0xA0])"

definition lstrip :: "string \<Rightarrow> string" where
  "lstrip s = dropWhile isspace s"

definition rstrip :: "string \<Rightarrow> string" where
  "rstrip s = rev (dropWhile isspace (rev s))"

definition strip :: "string \<Rightarrow> string" where
  \<comment> \<open>\<open>s.strip()\<close>\<close>
  "strip s = rstrip (lstrip s)"

definition lstrip_hash :: "string \<Rightarrow> string" where
  \<comment> \<open>\<open>s.lstrip('#')\<close>\<close>
  "lstrip_hash s = dropWhile (\<lambda>c. c = CHR ''#'') s"

definition startswith :: "string \<Rightarrow> string \<Rightarrow> bool" where
  \<comment> \<open>\<open>s.startswith(p)\<close>\<close>
  "startswith s p = (take (length p) s = p)"

definition endswith :: "string \<Rightarrow> string \<Rightarrow> bool" where
  \<comment> \<open>\<open>s.endswith(p)\<close>\<close>
  "endswith s p = (length p \<le> length s \<and> drop (length s - length p) s = p)"

fun contains :: "string \<Rightarrow> string \<Rightarrow> bool" where
  \<comment> \<open>\<open>sub in s\<close>: \<open>sub\<close> occurs in \<open>s\<close> as a contiguous substring\<close>
  "contains [] sub = (sub = [])"
| "contains (c # cs) sub = (startswith (c # cs) sub \<or> contains cs sub)"

fun split_acc :: "char \<Rightarrow> string \<Rightarrow> string \<Rightarrow> string list" where
  "split_acc sep cur [] = [rev cur]"
| "split_acc sep cur (c # cs) =
     (if c = sep then rev cur # split_acc sep [] cs else split_acc sep (c # cur) cs)"

definition split_lines :: "string \<Rightarrow> string list" where
  \<comment> \<open>\<open>s.split('\n')\<close>\<close>
  "split_lines s = split_acc (CHR 0x0A) [] s"

fun join :: "string \<Rightarrow> string list \<Rightarrow> string" where
  \<comment> \<open>\<open>sep.join(xs)\<close>\<close>
  "join sep [] = []"
| "join sep [x] = x"
| "join sep (x # y # ys) = x @ sep @ join sep (y # ys)"

definition lower_char :: "char \<Rightarrow> char" where
  \<comment> \<open>\<open>str.lower\<close> on one code point below 256: A-Z and the Latin-1 capitals\<close>
  "lower_char c =
     (let n = of_char c :: nat in
      if (65 \<le> n \<and> n \<le> 90) \<or> (192 \<le> n \<and> n \<le> 222 \<and> n \<noteq> 215)
      then char_of (n + 32) else c)"

definition lower :: "string \<Rightarrow> string" where
  "lower s = map lower_char s"

section \<open>Table title and header rows: \<open>MarkdownChunker._extract_markdown_table_title_and_header\<close>\<close>

text \<open>
  \<open>self.markdown_content\<close> is \<open>None\<close> until a file has been read, so it is a
  \<open>string option\<close>; \<open>table_data\<close> is the grid of cell strings; \<open>table_idx\<close> comes from
  \<open>enumerate\<close> and is a natural number. The result is the tuple
  \<open>(table_title, num_header_rows, subtitle)\<close>.
\<close>

definition falsy :: "string option \<Rightarrow> bool" where
  \<comment> \<open>\<open>not x\<close> for an optional string: \<open>None\<close> and the empty string are false\<close>
  "falsy x = (x = None \<or> x = Some [])"

fun table_starts_from :: "nat \<Rightarrow> bool \<Rightarrow> string list \<Rightarrow> nat list" where
  \<comment> \<open>the loop \<open>for i, line in enumerate(lines)\<close> that collects \<open>table_starts\<close>\<close>
  "table_starts_from i in_table [] = []"
| "table_starts_from i in_table (line # rest) =
     (let line_stripped = strip line;
          is_table_line = (startswith line_stripped ''|'' \<and> \<not> startswith line_stripped ''|--'')
      in if is_table_line \<and> \<not> in_table then i # table_starts_from (Suc i) True rest
         else if \<not> is_table_line \<and> \<not> startswith line_stripped ''|--''
              then table_starts_from (Suc i) False rest
         else table_starts_from (Suc i) in_table rest)"

definition find_table_starts :: "string list \<Rightarrow> nat list" where
  "find_table_starts lines = table_starts_from 0 False lines"

fun find_subtitle :: "string list \<Rightarrow> nat list \<Rightarrow> string option" where
  \<comment> \<open>the inner loop \<open>for j in range(i + 1, table_start_idx)\<close>\<close>
  "find_subtitle lines [] = None"
| "find_subtitle lines (j # js) =
     (let potential_subtitle = strip (lines ! j)
      in if potential_subtitle \<noteq> [] \<and> startswith potential_subtitle ''(''
            \<and> endswith potential_subtitle '')''
         then Some potential_subtitle
         else find_subtitle lines js)"

definition title_candidate :: "string \<Rightarrow> bool" where
  \<comment> \<open>the \<open>elif\<close> test on a stripped line\<close>
  "title_candidate line =
     (\<not> startswith line ''|'' \<and> 10 < length line \<and> length line < 150
      \<and> \<not> startswith line ''*'')"

fun scan_back ::
  "string list \<Rightarrow> nat \<Rightarrow> nat list \<Rightarrow> string option
     \<Rightarrow> string option \<times> string option \<times> string option" where
  \<comment> \<open>the loop \<open>for i in range(table_start_idx - 1, max(-1, table_start_idx - 5), -1)\<close>;
      the result is \<open>(table_title, subtitle, potential_title_without_hash)\<close>\<close>
  "scan_back lines table_start_idx [] potential = (None, None, potential)"
| "scan_back lines table_start_idx (i # is) potential =
     (let line = strip (lines ! i)
      in if line = [] then scan_back lines table_start_idx is potential
         else if startswith line ''##''
              then (Some (strip (lstrip_hash line)),
                    find_subtitle lines [i + 1 ..< table_start_idx],
                    potential)
         else if title_candidate line
              then scan_back lines table_start_idx is
                     (if falsy potential then Some line else potential)
         else scan_back lines table_start_idx is potential)"

definition scan_range :: "nat \<Rightarrow> nat list" where
  \<comment> \<open>\<open>range(table_start_idx - 1, max(-1, table_start_idx - 5), -1)\<close>\<close>
  "scan_range table_start_idx = rev [table_start_idx - 4 ..< table_start_idx]"

definition header_indicators :: "string list" where
  "header_indicators =
     [''2023'', ''2024'', ''2025'', ''2026'', ''fy'', ''year'', ''march'', ''quarter'',
      ''q1'', ''q2'', ''q3'', ''q4'', ''june'', ''september'', ''december'']"

definition row_text :: "string list \<Rightarrow> string" where
  \<comment> \<open>\<open>' '.join([str(cell).lower() for cell in row])\<close>\<close>
  "row_text row = join '' '' (map lower row)"

definition has_indicator :: "string \<Rightarrow> bool" where
  \<comment> \<open>\<open>any(indicator in text for indicator in header_indicators)\<close>\<close>
  "has_indicator text = list_ex (contains text) header_indicators"

definition detect_header_rows :: "string list list \<Rightarrow> nat" where
  "detect_header_rows table_data =
     (if 3 \<le> length table_data
      then (let n2 = (if 2 \<le> length table_data \<and> has_indicator (row_text (table_data ! 1))
                      then 2 else 1)
            in if 3 \<le> length table_data \<and> n2 = 2
                  \<and> has_indicator (row_text (table_data ! 2))
               then 3 else n2)
      else 1)"

definition extract_markdown_table_title_and_header ::
  "string option \<Rightarrow> nat \<Rightarrow> string list list \<Rightarrow> string option \<times> nat \<times> string option" where
  "extract_markdown_table_title_and_header markdown_content table_idx table_data =
     (if falsy markdown_content \<or> table_data = [] then (None, 1, None)
      else
        let lines = split_lines (the markdown_content);
            table_starts = find_table_starts lines
        in if length table_starts \<le> table_idx then (None, 1, None)
           else
             let table_start_idx = table_starts ! table_idx;
                 (found_title, subtitle, potential) =
                    scan_back lines table_start_idx (scan_range table_start_idx) None;
                 table_title = (if falsy found_title \<and> \<not> falsy potential
                                then potential else found_title)
             in (table_title, detect_header_rows table_data, subtitle))"

subsection \<open>The heuristic as the specification words it\<close>

text \<open>
  The definitions below follow the wording of the specification, not the iteration of the
  code: the lines looked at before a table, the heading among them, the subtitle between
  heading and table, the fallback title and the header-row count.
\<close>

definition preceding_window :: "string list \<Rightarrow> nat \<Rightarrow> (nat \<times> string) list" where
  \<comment> \<open>the non-empty lines among the four lines before line \<open>a\<close>, closest first, each
      stripped and paired with its line number\<close>
  "preceding_window lines a =
     filter (\<lambda>(i, l). l \<noteq> []) (map (\<lambda>i. (i, strip (lines ! i))) (rev [a - 4 ..< a]))"

definition is_heading :: "nat \<times> string \<Rightarrow> bool" where
  "is_heading = (\<lambda>(i, l). startswith l ''##'')"

definition spec_heading :: "string list \<Rightarrow> nat \<Rightarrow> (nat \<times> string) option" where
  \<comment> \<open>the first line starting with \<open>##\<close> met when looking backward\<close>
  "spec_heading lines a = find is_heading (preceding_window lines a)"

definition spec_before_heading :: "string list \<Rightarrow> nat \<Rightarrow> (nat \<times> string) list" where
  \<comment> \<open>the lines met before the heading, that is, between the heading and the table\<close>
  "spec_before_heading lines a = takeWhile (\<lambda>e. \<not> is_heading e) (preceding_window lines a)"

definition spec_subtitle :: "string list \<Rightarrow> nat \<Rightarrow> nat \<Rightarrow> string option" where
  \<comment> \<open>the first line strictly between heading \<open>i\<close> and anchor \<open>a\<close> of the form \<open>(...)\<close>\<close>
  "spec_subtitle lines i a =
     find (\<lambda>l. startswith l ''('' \<and> endswith l '')'') (map (\<lambda>j. strip (lines ! j)) [i + 1 ..< a])"

definition spec_fallback_line :: "string \<Rightarrow> bool" where
  \<comment> \<open>not a table row, length strictly between 10 and 150, not starting with \<open>*\<close>\<close>
  "spec_fallback_line l =
     (\<not> startswith l ''|'' \<and> 10 < length l \<and> length l < 150 \<and> \<not> startswith l ''*'')"

definition spec_fallback :: "(nat \<times> string) list \<Rightarrow> string option" where
  \<comment> \<open>the closest line of \<open>w\<close> that can serve as a fallback title\<close>
  "spec_fallback w = find spec_fallback_line (map snd w)"

definition fiscal_vocabulary :: "string list" where
  "fiscal_vocabulary =
     [''2023'', ''2024'', ''2025'', ''2026'', ''fy'', ''year'', ''march'', ''quarter'',
      ''q1'', ''q2'', ''q3'', ''q4'', ''june'', ''september'', ''december'']"

definition spec_row_matches :: "string list \<Rightarrow> bool" where
  \<comment> \<open>the lowercased, space-joined text of the row contains a token of the vocabulary\<close>
  "spec_row_matches row =
     (\<exists>tok \<in> set fiscal_vocabulary. contains (join '' '' (map lower row)) tok)"

definition spec_header_rows :: "string list list \<Rightarrow> nat" where
  "spec_header_rows grid =
     (if 3 \<le> length grid \<and> spec_row_matches (grid ! 1)
      then (if spec_row_matches (grid ! 2) then 3 else 2)
      else 1)"

definition win :: "string list \<Rightarrow> nat list \<Rightarrow> (nat \<times> string) list" where
  \<comment> \<open>\<open>preceding_window\<close> over any list of line numbers\<close>
  "win lines is = filter (\<lambda>(i, l). l \<noteq> []) (map (\<lambda>i. (i, strip (lines ! i))) is)"

subsection \<open>Example documents\<close>

definition unlines :: "string list \<Rightarrow> string" where
  \<comment> \<open>\<open>'\n'.join(ls)\<close>\<close>
  "unlines ls = join [CHR 0x0A] ls"

definition revenue_md :: string where
  "revenue_md = unlines [''## Revenue by Segment'', ''(in millions)'', ''|A|B|'', ''|-|-|'',
                         ''|2024|2025|'', ''|10|20|'']"

definition revenue_grid :: "string list list" where
  "revenue_grid = [[''A'', ''B''], [''2024'', ''2025''], [''10'', ''20'']]"

definition segment_md :: string where
  "segment_md =
     unlines [''Revenue by operating segments:'', [], ''|A|B|'', ''|-|-|'', ''|10|20|'']"

definition far_title_md :: string where
  \<comment> \<open>a 30-character line, four empty lines, then the table\<close>
  "far_title_md =
     unlines [''Revenue by operating segments:'', [], [], [], [], ''|A|B|'', ''|-|-|'',
              ''|10|20|'']"

definition segment_grid :: "string list list" where
  "segment_grid = [[''A'', ''B''], [''10'', ''20'']]"

definition empty_heading_md :: string where
  "empty_heading_md = unlines [''##'', ''Some plain text line'', ''|A|B|'']"

definition one_table_md :: string where
  "one_table_md = unlines [''|A|B|'', ''|-|-|'', ''|1|2|'']"

definition fiscal_grid :: "string list list" where
  "fiscal_grid = [[''Item''], [''FY 2024''], [''Total'']]"

section \<open>Streaming chunk writer: \<open>MarkdownChunker.process_markdown_file\<close>\<close>

text \<open>
  The function reads the markdown file, converts it with Docling, opens the output
  file and writes a header, one chunk per table, one chunk per text chunk, and a footer.
  The model keeps the file operations in a log, in the order the code performs them.
  What the collaborators return (file system, Docling converter, HybridChunker, uuid4)
  is an input of the model (\<open>md_world\<close>); an exception is a value of type \<open>error\<close>,
  and the handler of the function turns it into the return value 0.
  The random \<open>id\<close> fields of the chunks (uuid4) are left out of the chunk objects.
  Once the output file is open, its \<open>write\<close>, \<open>flush\<close> and \<open>close\<close> calls succeed.
\<close>

datatype error = ReadError | ConversionError | OutputError | TypeError
  | TokenizerError | UnboundLocalError | UnicodeEncodeError

datatype meta_value = MStr string | MInt int | MBool bool | MNull | MOpaque
  \<comment> \<open>\<open>MOpaque\<close>: a Python object that \<open>json.dumps\<close> rejects with a TypeError
      (a set, a datetime, bytes)\<close>

type_synonym metadata = "(string \<times> meta_value) list"
  \<comment> \<open>a Python dict with string keys, as an association list with distinct keys\<close>

definition json_serialisable :: "metadata \<Rightarrow> bool" where
  \<comment> \<open>\<open>json.dumps\<close> of a chunk with this \<open>"metadata"\<close> entry succeeds: the other
      fields of a chunk are strings and numbers\<close>
  "json_serialisable m = list_all (\<lambda>(k, v). v \<noteq> MOpaque) m"

datatype chunk_payload =
    TablePayload string "string list list"  \<comment> \<open>\<open>"table": {"title": ..., "body": ...}\<close>\<close>
  | TextPayload string  \<comment> \<open>\<open>"content": ...\<close>\<close>

record chunk_obj =
  Index :: nat
  payload :: chunk_payload
  chunk_metadata :: metadata

datatype piece =
    Text string  \<comment> \<open>literal characters\<close>
  | JsonStr string  \<comment> \<open>\<open>json.dumps(s)\<close> of a string\<close>
  | JsonChunk chunk_obj  \<comment> \<open>the indented \<open>json.dumps\<close> of a chunk\<close>

datatype fs_op =
    LockAcquire string | LockRelease string
  | OpenWrite string | OpenRead string
  | WriteData string "piece list" | FlushFile string | CloseFile string
  | Rename string string

record writer =
  ops :: "fs_op list"
  Index_var :: nat  \<comment> \<open>the local variable \<open>Index\<close>\<close>
  is_first_chunk :: bool

record doc_table =
  probing_raises :: bool
    \<comment> \<open>reading the table object raises before anything is written for it (lines
        186 to 240); the handler of the loop logs a warning and goes on\<close>
  table_data_raw :: "string list list"  \<comment> \<open>\<open>self._extract_table_structure(table)\<close>\<close>
  extracted_title :: string  \<comment> \<open>\<open>self._extract_table_title(...)\<close>\<close>

record text_chunk =
  chunk_text_for_embedding :: string  \<comment> \<open>the cleaned text of lines 268 to 276\<close>
  is_table_chunk :: bool  \<comment> \<open>some \<open>doc_item\<close> label contains \<open>table\<close>\<close>
  text_section_title :: string  \<comment> \<open>the section title of lines 331 to 361\<close>

record md_request =
  markdown_file_path :: string
  output_json_path :: string
  req_id :: "string option"  \<comment> \<open>the argument \<open>id\<close>\<close>
  req_name :: "string option"  \<comment> \<open>the argument \<open>name\<close>\<close>
  req_metadata :: "metadata option"  \<comment> \<open>the argument \<open>metadata\<close>\<close>

record md_world =
  output_is_dir :: bool  \<comment> \<open>\<open>os.path.isdir(output_json_path)\<close>\<close>
  input_basename :: string  \<comment> \<open>\<open>os.path.basename(markdown_file_path)\<close>\<close>
  input_stem :: string  \<comment> \<open>\<open>os.path.splitext(input_basename)[0]\<close>\<close>
  fresh_uuid :: string  \<comment> \<open>\<open>str(uuid.uuid4())\<close>\<close>
  file_text :: "string option"  \<comment> \<open>the markdown file; \<open>None\<close>: reading raises\<close>
  converted :: "(doc_table list \<times> text_chunk list) option"
    \<comment> \<open>\<open>doc.tables\<close> and the chunks the HybridChunker yields; \<open>None\<close>: conversion raises\<close>
  output_writable :: bool
    \<comment> \<open>the output directory can be made and \<open>aiofiles.open(output_json_path, 'w')\<close>
        succeeds\<close>

definition nl :: string where
  "nl = [CHR 0x0A]"

definition dq :: string where
  "dq = [CHR 0x22]"

definition path_join :: "string \<Rightarrow> string \<Rightarrow> string" where
  \<comment> \<open>\<open>os.path.join(d, f)\<close> for a directory \<open>d\<close> and a file name \<open>f\<close>\<close>
  "path_join d f = (if d = [] \<or> last d = CHR ''/'' then d @ f else d @ ''/'' @ f)"

definition chunk_metadata_of :: "metadata \<Rightarrow> string \<Rightarrow> string \<Rightarrow> metadata" where
  \<comment> \<open>\<open>{**metadata, "section_title": ..., "content_type": ...}\<close>: a value the caller
      gave under one of the two keys is replaced\<close>
  "chunk_metadata_of metadata section_title content_type =
     AList.update ''content_type'' (MStr content_type)
       (AList.update ''section_title'' (MStr section_title) metadata)"

definition write_data :: "string \<Rightarrow> piece list \<Rightarrow> writer \<Rightarrow> writer" where
  \<comment> \<open>\<open>await output_file.write(...)\<close>\<close>
  "write_data path ps w = w\<lparr>ops := ops w @ [WriteData path ps]\<rparr>"

definition flush_file :: "string \<Rightarrow> writer \<Rightarrow> writer" where
  "flush_file path w = w\<lparr>ops := ops w @ [FlushFile path]\<rparr>"

definition close_file :: "string \<Rightarrow> writer \<Rightarrow> writer" where
  "close_file path w = w\<lparr>ops := ops w @ [CloseFile path]\<rparr>"

definition write_separator :: "string \<Rightarrow> writer \<Rightarrow> writer" where
  \<comment> \<open>\<open>if not is_first_chunk: write(',\n') else: is_first_chunk = False\<close>\<close>
  "write_separator path w =
     (if \<not> is_first_chunk w then write_data path [Text ('','' @ nl)] w
      else w\<lparr>is_first_chunk := False\<rparr>)"

definition commit_chunk :: "string \<Rightarrow> chunk_obj \<Rightarrow> writer \<Rightarrow> writer" where
  \<comment> \<open>the chunk has been serialised: write it, flush, \<open>Index += 1\<close>\<close>
  "commit_chunk path c w =
     (flush_file path (write_data path [JsonChunk c] w))\<lparr>Index_var := Index_var w + 1\<rparr>"

definition process_table ::
  "string \<Rightarrow> metadata \<Rightarrow> string option \<Rightarrow> nat \<Rightarrow> doc_table \<Rightarrow> writer \<Rightarrow> writer" where
  \<comment> \<open>the body of \<open>for table_idx, table in enumerate(doc.tables)\<close> with its handler\<close>
  "process_table path metadata markdown_content table_idx table w =
     (if probing_raises table then w
      else if table_data_raw table = [] then w
      else
        let (markdown_title, num_header_rows, subtitle) =
               extract_markdown_table_title_and_header markdown_content table_idx
                 (table_data_raw table);
            section_title = (if \<not> falsy markdown_title then the markdown_title
                             else extracted_title table);
            whole_table_chunk =
               \<lparr>Index = Index_var w,
                payload = TablePayload section_title (table_data_raw table),
                chunk_metadata = chunk_metadata_of metadata section_title ''table''\<rparr>;
            w1 = write_separator path w
        in if \<not> json_serialisable (chunk_metadata whole_table_chunk) then w1
           else commit_chunk path whole_table_chunk w1)"

fun process_tables ::
  "string \<Rightarrow> metadata \<Rightarrow> string option \<Rightarrow> nat \<Rightarrow> doc_table list \<Rightarrow> writer \<Rightarrow> writer" where
  "process_tables path metadata markdown_content table_idx [] w = w"
| "process_tables path metadata markdown_content table_idx (table # rest) w =
     process_tables path metadata markdown_content (Suc table_idx) rest
       (process_table path metadata markdown_content table_idx table w)"

fun process_text_chunks ::
  "string \<Rightarrow> metadata \<Rightarrow> text_chunk list \<Rightarrow> writer \<Rightarrow> error option \<times> writer" where
  \<comment> \<open>\<open>for i, chunk in enumerate(chunk_iter)\<close>; an exception here leaves the function\<close>
  "process_text_chunks path metadata [] w = (None, w)"
| "process_text_chunks path metadata (chunk # rest) w =
     (if chunk_text_for_embedding chunk = []
         \<or> length (strip (chunk_text_for_embedding chunk)) < 10
      then process_text_chunks path metadata rest w
      else if is_table_chunk chunk then process_text_chunks path metadata rest w
      else
        let chunk_obj =
               \<lparr>Index = Index_var w,
                payload = TextPayload (chunk_text_for_embedding chunk),
                chunk_metadata =
                  chunk_metadata_of metadata (take 100 (text_section_title chunk)) ''text''\<rparr>;
            w1 = write_separator path w
        in if \<not> json_serialisable (chunk_metadata chunk_obj) then (Some TypeError, w1)
           else process_text_chunks path metadata rest (commit_chunk path chunk_obj w1))"

definition actual_output_path :: "md_world \<Rightarrow> md_request \<Rightarrow> string" where
  "actual_output_path world req =
     (if output_is_dir world
      then path_join (output_json_path req) (input_stem world @ ''_chunks.json'')
      else output_json_path req)"

definition header_pieces :: "string \<Rightarrow> string \<Rightarrow> piece list list" where
  \<comment> \<open>the four \<open>write\<close> calls of the document header\<close>
  "header_pieces name_v id_v =
     [[Text (''{'' @ nl)],
      [Text (''  '' @ dq @ ''name'' @ dq @ '': ''), JsonStr name_v, Text ('','' @ nl)],
      [Text (''  '' @ dq @ ''id'' @ dq @ '': ''), JsonStr id_v, Text ('','' @ nl)],
      [Text (''  '' @ dq @ ''chunks'' @ dq @ '': ['' @ nl)]]"

definition footer_pieces :: "piece list list" where
  \<comment> \<open>the two \<open>write\<close> calls that close the JSON structure\<close>
  "footer_pieces = [[Text (nl @ ''  ]'' @ nl)], [Text (''}'' @ nl)]]"

definition write_all :: "string \<Rightarrow> piece list list \<Rightarrow> writer \<Rightarrow> writer" where
  "write_all path pss w = w\<lparr>ops := ops w @ map (WriteData path) pss\<rparr>"

definition stream_chunks ::
  "string \<Rightarrow> string \<Rightarrow> string \<Rightarrow> metadata \<Rightarrow> string \<Rightarrow> doc_table list \<Rightarrow> text_chunk list
     \<Rightarrow> error option \<times> writer" where
  \<comment> \<open>lines 164 to 395 and the handler: open the output file, write header, tables,
      text chunks and footer, close\<close>
  "stream_chunks path name_v id_v metadata md_text tables chunks =
     (let w1 = write_all path (header_pieces name_v id_v)
                 \<lparr>ops = [OpenWrite path], Index_var = 0, is_first_chunk = True\<rparr>;
          w2 = process_tables path metadata (Some md_text) 0 tables w1;
          (err, w3) = process_text_chunks path metadata chunks w2
      in case err of
           Some e \<Rightarrow> (Some e, close_file path w3)
         | None \<Rightarrow> (None, close_file path (write_all path footer_pieces w3)))"

definition process_markdown_file_run :: "md_world \<Rightarrow> md_request \<Rightarrow> error option \<times> writer" where
  "process_markdown_file_run world req =
     (let path = actual_output_path world req;
          id_v = (case req_id req of None \<Rightarrow> fresh_uuid world | Some i \<Rightarrow> i);
          name_v = (case req_name req of None \<Rightarrow> input_basename world | Some n \<Rightarrow> n);
          metadata = (case req_metadata req of None \<Rightarrow> [] | Some m \<Rightarrow> m);
          w0 = \<lparr>ops = [], Index_var = 0, is_first_chunk = True\<rparr>
      in case file_text world of
           None \<Rightarrow> (Some ReadError, w0)
         | Some md_text \<Rightarrow>
             (case converted world of
                None \<Rightarrow> (Some ConversionError, w0)
              | Some (tables, chunks) \<Rightarrow>
                  if \<not> output_writable world then (Some OutputError, w0)
                  else stream_chunks path name_v id_v metadata md_text tables chunks))"

definition process_markdown_file :: "md_world \<Rightarrow> md_request \<Rightarrow> nat" where
  \<comment> \<open>the return value: \<open>Index\<close>, or 0 from the handler of the function\<close>
  "process_markdown_file world req =
     (case process_markdown_file_run world req of
        (None, w) \<Rightarrow> Index_var w
      | (Some e, w) \<Rightarrow> 0)"

subsection \<open>The content of the output file\<close>

fun written :: "string \<Rightarrow> fs_op list \<Rightarrow> piece list" where
  \<comment> \<open>what the operations of the log have written to \<open>path\<close>, in order\<close>
  "written path [] = []"
| "written path (WriteData q ps # rest) = (if q = path then ps else []) @ written path rest"
| "written path (other # rest) = written path rest"

fun chunks_of :: "piece list \<Rightarrow> chunk_obj list" where
  \<comment> \<open>the chunk objects of a file, in file order\<close>
  "chunks_of [] = []"
| "chunks_of (JsonChunk c # ps) = c # chunks_of ps"
| "chunks_of (other # ps) = chunks_of ps"

subsection \<open>JSON syntax of the output file\<close>

text \<open>
  The file is read as a sequence of JSON tokens: the literal text is lexed, a string
  written with \<open>json.dumps\<close> is a string token, a serialised chunk is one value.
  A pushdown recogniser for the JSON grammar decides whether the tokens form a JSON
  document.
\<close>

datatype tok = LBrace | RBrace | LBrack | RBrack | Comma | Colon | Str string | Obj chunk_obj

definition punct :: "char \<Rightarrow> tok option" where
  "punct c =
     (if c = CHR ''{'' then Some LBrace else if c = CHR ''}'' then Some RBrace
      else if c = CHR ''['' then Some LBrack else if c = CHR '']'' then Some RBrack
      else if c = CHR '','' then Some Comma else if c = CHR '':'' then Some Colon
      else None)"

fun lex_text :: "string option \<Rightarrow> string \<Rightarrow> tok list option" where
  \<comment> \<open>the first argument holds the characters of the string literal being read\<close>
  "lex_text None [] = Some []"
| "lex_text (Some acc) [] = None"
| "lex_text (Some acc) (c # cs) =
     (if c = CHR 0x22 then map_option ((#) (Str (rev acc))) (lex_text None cs)
      else if c = CHR 0x5C then None
      else lex_text (Some (c # acc)) cs)"
| "lex_text None (c # cs) =
     (if c \<in> set [CHR 0x20, CHR 0x0A, CHR 0x0D, CHR 0x09] then lex_text None cs
      else if c = CHR 0x22 then lex_text (Some []) cs
      else case punct c of
             Some t \<Rightarrow> map_option ((#) t) (lex_text None cs)
           | None \<Rightarrow> None)"

fun tokens_of :: "piece list \<Rightarrow> tok list option" where
  "tokens_of [] = Some []"
| "tokens_of (Text s # ps) =
     (case lex_text None s of
        None \<Rightarrow> None
      | Some ts \<Rightarrow> map_option ((@) ts) (tokens_of ps))"
| "tokens_of (JsonStr s # ps) = map_option ((#) (Str s)) (tokens_of ps)"
| "tokens_of (JsonChunk c # ps) = map_option ((#) (Obj c)) (tokens_of ps)"

datatype ctx = InArray | InObject

datatype expect = Value | ValueOrClose | KeyOrClose | Key | ColonNext | CommaOrClose | Done

definition after_value :: "ctx list \<Rightarrow> expect" where
  "after_value stack = (if stack = [] then Done else CommaOrClose)"

definition close_ctx :: "ctx \<Rightarrow> ctx list \<Rightarrow> (expect \<times> ctx list) option" where
  "close_ctx k stack =
     (case stack of
        [] \<Rightarrow> None
      | frame # below \<Rightarrow> if frame = k then Some (after_value below, below) else None)"

definition start_value :: "ctx list \<Rightarrow> tok \<Rightarrow> (expect \<times> ctx list) option" where
  "start_value stack t =
     (case t of
        Str s \<Rightarrow> Some (after_value stack, stack)
      | Obj c \<Rightarrow> Some (after_value stack, stack)
      | LBrace \<Rightarrow> Some (KeyOrClose, InObject # stack)
      | LBrack \<Rightarrow> Some (ValueOrClose, InArray # stack)
      | _ \<Rightarrow> None)"

fun json_step :: "expect \<Rightarrow> ctx list \<Rightarrow> tok \<Rightarrow> (expect \<times> ctx list) option" where
  "json_step Value stack t = start_value stack t"
| "json_step ValueOrClose stack t =
     (if t = RBrack then close_ctx InArray stack else start_value stack t)"
| "json_step KeyOrClose stack t =
     (case t of Str k \<Rightarrow> Some (ColonNext, stack) | RBrace \<Rightarrow> close_ctx InObject stack
      | _ \<Rightarrow> None)"
| "json_step Key stack t = (case t of Str k \<Rightarrow> Some (ColonNext, stack) | _ \<Rightarrow> None)"
| "json_step ColonNext stack t = (if t = Colon then Some (Value, stack) else None)"
| "json_step CommaOrClose stack t =
     (case t of
        Comma \<Rightarrow> (case stack of [] \<Rightarrow> None
                   | frame # below \<Rightarrow> Some (if frame = InObject then Key else Value, stack))
      | RBrace \<Rightarrow> close_ctx InObject stack
      | RBrack \<Rightarrow> close_ctx InArray stack
      | _ \<Rightarrow> None)"
| "json_step Done stack t = None"

fun json_run :: "expect \<Rightarrow> ctx list \<Rightarrow> tok list \<Rightarrow> bool" where
  "json_run e stack [] = (e = Done \<and> stack = [])"
| "json_run e stack (t # ts) =
     (case json_step e stack t of
        None \<Rightarrow> False
      | Some (e', stack') \<Rightarrow> json_run e' stack' ts)"

definition valid_json :: "tok list \<Rightarrow> bool" where
  "valid_json ts = json_run Value [] ts"

fun top_members :: "nat \<Rightarrow> tok list \<Rightarrow> (string \<times> tok) list" where
  \<comment> \<open>the keys of the outermost object, each with the first token of its value\<close>
  "top_members d [] = []"
| "top_members d (Str k # Colon # v # ts) =
     (if d = 1 then [(k, v)] else []) @ top_members d (v # ts)"
| "top_members d (LBrace # ts) = top_members (d + 1) ts"
| "top_members d (LBrack # ts) = top_members (d + 1) ts"
| "top_members d (RBrace # ts) = top_members (d - 1) ts"
| "top_members d (RBrack # ts) = top_members (d - 1) ts"
| "top_members d (t # ts) = top_members d ts"

definition valid_chunk_file :: "piece list \<Rightarrow> bool" where
  \<comment> \<open>a JSON document with top-level \<open>name\<close>, \<open>id\<close> and \<open>chunks\<close>, the last an array\<close>
  "valid_chunk_file ps =
     (case tokens_of ps of
        None \<Rightarrow> False
      | Some ts \<Rightarrow>
          valid_json ts
          \<and> map fst (top_members 0 ts) = [''name'', ''id'', ''chunks'']
          \<and> map_of (top_members 0 ts) ''chunks'' = Some LBrack)"

subsection \<open>Example runs of the writer\<close>

definition table_ab :: doc_table where
  "table_ab = \<lparr>probing_raises = False, table_data_raw = [[''A'', ''B''], [''1'', ''2'']],
               extracted_title = ''Page 1 - Table 1''\<rparr>"

definition table_empty :: doc_table where
  "table_empty = \<lparr>probing_raises = False, table_data_raw = [],
                  extracted_title = ''Page 1 - Table 2''\<rparr>"

definition prose_chunk :: text_chunk where
  "prose_chunk = \<lparr>chunk_text_for_embedding = ''Revenue grew in every segment.'',
                  is_table_chunk = False, text_section_title = ''Overview''\<rparr>"

definition short_chunk :: text_chunk where
  "short_chunk = \<lparr>chunk_text_for_embedding = ''n/a'', is_table_chunk = False,
                  text_section_title = ''Overview''\<rparr>"

definition demo_world :: md_world where
  "demo_world =
     \<lparr>output_is_dir = False, input_basename = ''report.md'', input_stem = ''report'',
      fresh_uuid = ''00000000-0000-4000-8000-000000000000'',
      file_text = Some one_table_md,
      converted = Some ([table_ab, table_empty, table_ab], [short_chunk, prose_chunk]),
      output_writable = True\<rparr>"

definition demo_request :: md_request where
  "demo_request =
     \<lparr>markdown_file_path = ''report.md'', output_json_path = ''out/report_chunks.json'',
      req_id = None, req_name = None, req_metadata = None\<rparr>"

definition tables_only_world :: md_world where
  "tables_only_world = demo_world\<lparr>converted := Some ([table_ab, table_ab], [])\<rparr>"

definition opaque_request :: md_request where
  \<comment> \<open>\<open>metadata={"tags": {"a", "b"}}\<close>: a set is not JSON serialisable\<close>
  "opaque_request = demo_request\<lparr>req_metadata := Some [(''tags'', MOpaque)]\<rparr>"

subsection \<open>Chunks joined by separators\<close>

fun sep_chunks :: "chunk_obj list \<Rightarrow> piece list" where
  \<comment> \<open>the chunks with \<open>,\n\<close> between consecutive ones and nowhere else\<close>
  "sep_chunks [] = []"
| "sep_chunks (c # cs) = JsonChunk c # concat (map (\<lambda>c'. [Text ('','' @ nl), JsonChunk c']) cs)"

fun sep_toks :: "chunk_obj list \<Rightarrow> tok list" where
  "sep_toks [] = []"
| "sep_toks (c # cs) = Obj c # concat (map (\<lambda>c'. [Comma, Obj c']) cs)"

definition header_toks :: "string \<Rightarrow> string \<Rightarrow> tok list" where
  "header_toks name_v id_v =
     [LBrace, Str ''name'', Colon, Str name_v, Comma, Str ''id'', Colon, Str id_v, Comma,
      Str ''chunks'', Colon, LBrack]"

subsection \<open>Invariants of the writer\<close>

definition index_inv :: "string \<Rightarrow> writer \<Rightarrow> bool" where
  "index_inv path w =
     (map Index (chunks_of (written path (ops w))) = [0 ..< Index_var w])"

definition shape_inv :: "string \<Rightarrow> piece list \<Rightarrow> writer \<Rightarrow> bool" where
  "shape_inv path hdr w =
     (\<exists>cs. written path (ops w) = hdr @ sep_chunks cs \<and> (is_first_chunk w \<longleftrightarrow> cs = []))"

section \<open>Locks and atomic replacement of output files\<close>

text \<open>
  \<open>save_markdown_async\<close> of \<open>md_converter.py\<close> writes a markdown file under a lock
  kept per path, into a temporary file that is then renamed. Its log of file operations
  is given here next to the one of the read-modify-write of
  \<open>DocumentPipeline.process\<close> that appends the OCR chunks (lines 276 to 299 of
  \<open>doclingbackup.py\<close>). \<open>temp_file\<close> is \<open>output_path.with_suffix('.tmp')\<close>.
\<close>

definition save_markdown_async_ops :: "string \<Rightarrow> string \<Rightarrow> string \<Rightarrow> fs_op list" where
  "save_markdown_async_ops temp_file output_path md_text =
     [LockAcquire output_path, OpenWrite temp_file, WriteData temp_file [Text md_text],
      CloseFile temp_file, Rename temp_file output_path, LockRelease output_path]"

definition ocr_append_ops :: "string \<Rightarrow> piece list \<Rightarrow> fs_op list" where
  \<comment> \<open>\<open>json.load\<close> of the chunk file, then \<open>json.dump\<close> of the extended data to the
      same path opened with mode \<open>'w'\<close>\<close>
  "ocr_append_ops actual_output_path_v data =
     [OpenRead actual_output_path_v, CloseFile actual_output_path_v,
      OpenWrite actual_output_path_v, WriteData actual_output_path_v data,
      CloseFile actual_output_path_v]"

fun guarded_atomic :: "string \<Rightarrow> bool \<Rightarrow> fs_op list \<Rightarrow> bool" where
  \<comment> \<open>the discipline the specification words for a path: the path is never opened for
      writing nor written in place, and a file is renamed onto it only while the lock of
      the path is held; the flag tells whether the lock is held\<close>
  "guarded_atomic path held [] = True"
| "guarded_atomic path held (LockAcquire q # rest) = guarded_atomic path (held \<or> q = path) rest"
| "guarded_atomic path held (LockRelease q # rest) = guarded_atomic path (held \<and> q \<noteq> path) rest"
| "guarded_atomic path held (OpenWrite q # rest) = (q \<noteq> path \<and> guarded_atomic path held rest)"
| "guarded_atomic path held (WriteData q ps # rest) = (q \<noteq> path \<and> guarded_atomic path held rest)"
| "guarded_atomic path held (Rename src dst # rest) =
     ((dst = path \<longrightarrow> held) \<and> guarded_atomic path held rest)"
| "guarded_atomic path held (other # rest) = guarded_atomic path held rest"

section \<open>Direct chunking of JSON files: \<open>chunk_json_directly\<close> (\<open>document_process.py\<close>)\<close>

text \<open>
  The function reads the file, loads a tokenizer, parses the text with \<open>json.loads\<close>,
  builds the chunks and writes them with \<open>json.dump\<close>; its handler turns every
  exception into the return value 0. \<open>json.loads\<close> and the calls that can fail for
  reasons outside the function are inputs of the model (\<open>json_world\<close>). The variable
  \<open>json_data\<close> is bound only when parsing succeeds: it is a \<open>json option\<close>, and reading
  it unbound raises \<open>UnboundLocalError\<close>.
\<close>

datatype json =
    JNull | JBool bool | JNum int | JStr string
  | JArr "json list" | JObj "(string \<times> json) list"

datatype chunk_content =
    Dumped json  \<comment> \<open>\<open>json.dumps(v, indent=2, ensure_ascii=False)\<close>\<close>
  | Raw string

record Chunk =
  chunk_id :: string
  content :: chunk_content
  content_type :: string
  page_number :: "int option"
  section_title :: "string option"
  chunk_index :: "nat option"

datatype file_state =
    Missing  \<comment> \<open>no file at the path\<close>
  | Earlier string  \<comment> \<open>a file that was there before the call\<close>
  | ChunkList "Chunk list"  \<comment> \<open>\<open>json.dump([asdict(chunk) for chunk in chunks])\<close>\<close>
  | Partial
      \<comment> \<open>the file was opened with mode \<open>'w'\<close> and \<open>json.dump\<close> raised: what was there
          is gone and only part of the output is written\<close>

datatype ext_call =
    ReadInput  \<comment> \<open>\<open>open(input_path).read()\<close>\<close>
  | LoadTokenizer  \<comment> \<open>\<open>AutoTokenizer.from_pretrained\<close>, \<open>HuggingFaceTokenizer\<close>\<close>
  | JsonLoads  \<comment> \<open>\<open>json.loads(json_content)\<close>\<close>
  | OpenOutput  \<comment> \<open>\<open>output_path.parent.mkdir\<close>, \<open>open(output_path, 'w')\<close>\<close>
  | JsonDump  \<comment> \<open>\<open>json.dump(json_data, f)\<close>\<close>
  | UnlinkTemp  \<comment> \<open>\<open>Path(temp_file).unlink()\<close>\<close>
  | ConverterConvert
      \<comment> \<open>\<open>converter.convert(source=...)\<close>, the staged conversion engine, called by
          \<open>chunk_document\<close> for the other formats\<close>

record json_world =
  json_file :: "string option"  \<comment> \<open>the text of the file; \<open>None\<close>: reading raises\<close>
  tokenizer_loads :: bool
  json_loads :: "string \<Rightarrow> json option"  \<comment> \<open>\<open>None\<close>: \<open>JSONDecodeError\<close>\<close>
  output_opens :: bool  \<comment> \<open>the output directory can be made and the file opened\<close>
  dump_encodes :: bool
    \<comment> \<open>\<open>json.dump(..., ensure_ascii=False)\<close> can write every string of the chunks to the
        UTF-8 file; false when a content or \<open>source_name\<close> holds a lone surrogate (a
        JSON text may escape one), a code point the strings of the model do not have:
        then \<open>f.write\<close> raises \<open>UnicodeEncodeError\<close>\<close>

record json_result =
  returned :: nat
  output_after :: file_state
  failure :: "error option"  \<comment> \<open>the exception the handler caught\<close>
  calls :: "ext_call list"

definition digit_char :: "nat \<Rightarrow> char" where
  "digit_char d = char_of (48 + d)"

fun str_nat :: "nat \<Rightarrow> string" where
  \<comment> \<open>\<open>str(n)\<close> for a natural number\<close>
  "str_nat n = (if n < 10 then [digit_char n] else str_nat (n div 10) @ [digit_char (n mod 10)])"

definition format_04d :: "nat \<Rightarrow> string" where
  \<comment> \<open>\<open>f"{n:04d}"\<close>\<close>
  "format_04d n = replicate (4 - length (str_nat n)) (CHR ''0'') @ str_nat n"

definition array_item_chunk :: "string \<Rightarrow> nat \<times> json \<Rightarrow> Chunk" where
  \<comment> \<open>the body of \<open>for chunk_index, item in enumerate(json_data)\<close>\<close>
  "array_item_chunk source_name = (\<lambda>(idx, item).
     \<lparr>chunk_id = source_name @ ''_chunk_'' @ format_04d idx,
      content = Dumped item,
      content_type = ''json_array_item'',
      page_number = Some 1,
      section_title = Some (''Item '' @ str_nat (idx + 1)),
      chunk_index = Some idx\<rparr>)"

definition build_chunks :: "string \<Rightarrow> chunk_content \<Rightarrow> json \<Rightarrow> Chunk list" where
  \<comment> \<open>lines 357 to 407, for a bound \<open>json_data\<close>\<close>
  "build_chunks source_name formatted_content json_data =
     (case json_data of
        JArr items \<Rightarrow> map (array_item_chunk source_name) (zip [0 ..< length items] items)
      | JObj members \<Rightarrow>
          [\<lparr>chunk_id = source_name @ ''_chunk_0000'', content = formatted_content,
            content_type = ''json_object'', page_number = Some 1,
            section_title = Some ''JSON Object'', chunk_index = Some 0\<rparr>]
      | _ \<Rightarrow>
          [\<lparr>chunk_id = source_name @ ''_chunk_0000'', content = formatted_content,
            content_type = ''json'', page_number = Some 1,
            section_title = Some ''JSON Data'', chunk_index = Some 0\<rparr>])"

definition chunk_json_body :: "json_world \<Rightarrow> string \<Rightarrow> ext_call list \<times> (error + Chunk list)" where
  \<comment> \<open>the \<open>try\<close> block up to the writing of the output: the calls made, and the chunks
      written or the exception raised\<close>
  "chunk_json_body world source_name =
     (case json_file world of
        None \<Rightarrow> ([ReadInput], Inl ReadError)
      | Some json_content \<Rightarrow>
          if \<not> tokenizer_loads world then ([ReadInput, LoadTokenizer], Inl TokenizerError)
          else
            let json_data = json_loads world json_content;
                formatted_content = (case json_data of
                                       Some v \<Rightarrow> Dumped v
                                     | None \<Rightarrow> Raw json_content)
            in case json_data of
                 None \<Rightarrow> ([ReadInput, LoadTokenizer, JsonLoads], Inl UnboundLocalError)
               | Some v \<Rightarrow>
                   let chunks = build_chunks source_name formatted_content v
                   in if \<not> output_opens world
                      then ([ReadInput, LoadTokenizer, JsonLoads, OpenOutput], Inl OutputError)
                      else if \<not> dump_encodes world
                      then ([ReadInput, LoadTokenizer, JsonLoads, OpenOutput, JsonDump],
                            Inl UnicodeEncodeError)
                      else ([ReadInput, LoadTokenizer, JsonLoads, OpenOutput, JsonDump],
                            Inr chunks))"

definition chunk_json_directly ::
  "json_world \<Rightarrow> string \<Rightarrow> string option \<Rightarrow> file_state \<Rightarrow> json_result" where
  \<comment> \<open>\<open>before\<close> is the state of the output path when the function is called; once
      \<open>json.dump\<close> has been called the file has been opened with mode \<open>'w'\<close>\<close>
  "chunk_json_directly world source_name temp_file before =
     (let (made, result) = chunk_json_body world source_name;
          cleanup = (if temp_file = None then [] else [UnlinkTemp])
      in case result of
           Inr chunks \<Rightarrow>
             \<lparr>returned = length chunks, output_after = ChunkList chunks, failure = None,
              calls = made @ cleanup\<rparr>
         | Inl e \<Rightarrow>
             \<lparr>returned = 0,
              output_after = (if JsonDump \<in> set made then Partial else before),
              failure = Some e,
              calls = made @ cleanup\<rparr>)"

subsection \<open>Example JSON files\<close>

definition two_items_text :: string where
  \<comment> \<open>the text \<open>[{"a":1},{"a":2}]\<close>\<close>
  "two_items_text = ''[{'' @ dq @ ''a'' @ dq @ '':1},{'' @ dq @ ''a'' @ dq @ '':2}]''"

definition two_items :: json where
  "two_items = JArr [JObj [(''a'', JNum 1)], JObj [(''a'', JNum 2)]]"

definition two_items_world :: json_world where
  "two_items_world =
     \<lparr>json_file = Some two_items_text, tokenizer_loads = True,
      json_loads = (\<lambda>s. if s = two_items_text then Some two_items else None),
      output_opens = True, dump_encodes = True\<rparr>"

definition broken_world :: json_world where
  \<comment> \<open>a file holding \<open>{"a":\<close>, which is not JSON\<close>
  "broken_world =
     \<lparr>json_file = Some (''{'' @ dq @ ''a'' @ dq @ '':''), tokenizer_loads = True,
      json_loads = (\<lambda>s. None), output_opens = True, dump_encodes = True\<rparr>"

definition no_tokenizer_world :: json_world where
  \<comment> \<open>the same file, and an \<open>embedding_model\<close> for which no tokenizer can be loaded\<close>
  "no_tokenizer_world = two_items_world\<lparr>tokenizer_loads := False\<rparr>"

section \<open>The pipeline: \<open>DocumentPipeline.process\<close> and \<open>process_batch\<close> (\<open>doclingbackup.py\<close>)\<close>

text \<open>
  A pipeline object holds a temporary directory: \<open>__init__\<close> makes one with
  \<open>tempfile.mkdtemp\<close> when the caller passes none and then sets \<open>cleanup_temp\<close>.
  \<open>process\<close> converts a source into a markdown file in that directory (unless the
  source is markdown already), chunks it with \<open>process_markdown_file\<close>, optionally
  appends OCR chunks, and returns a dictionary; its \<open>finally\<close> clause removes the
  temporary directory when \<open>cleanup_temp\<close> is set. The conversion saves the markdown
  with \<open>save_markdown_async\<close>, which opens a file in the temporary directory and
  raises when the directory is gone; \<open>convert_single_async\<close> then returns \<open>None\<close>.
\<close>

record pipeline =
  temp_dir_exists :: bool  \<comment> \<open>\<open>os.path.exists(self.temp_dir)\<close>\<close>
  cleanup_temp :: bool

datatype ocr_outcome =
    OcrRaises string  \<comment> \<open>the OCR step raises; the string is \<open>str(e)\<close>\<close>
  | OcrChunks nat  \<comment> \<open>the number of OCR chunks appended\<close>

record job_world =
  input_source :: string
  source_suffix :: string  \<comment> \<open>\<open>Path(input_source).suffix.lower()\<close>\<close>
  source_stem :: string  \<comment> \<open>\<open>Path(input_source).stem\<close>\<close>
  converts :: bool
    \<comment> \<open>\<open>validate_input\<close> accepts the source and the converter reports SUCCESS\<close>
  markdown_path :: string  \<comment> \<open>the file the conversion saves\<close>
  chunking :: md_world  \<comment> \<open>what \<open>process_markdown_file\<close> finds for the markdown\<close>
  ocr_step :: ocr_outcome

datatype job_result =
    Succeeded (result_source: string) (output_json: string) (num_chunks: nat)
      (num_ocr_chunks: nat)
  | Failed (error_text: string) (result_source: string)

fun success :: "job_result \<Rightarrow> bool" where
  \<comment> \<open>the entry \<open>"success"\<close> of the dictionary\<close>
  "success (Succeeded src out n k) = True"
| "success (Failed e src) = False"

definition process :: "pipeline \<Rightarrow> bool \<Rightarrow> string \<Rightarrow> job_world \<Rightarrow> job_result \<times> pipeline" where
  "process pl ocr output_json_path_v job =
     (let is_already_markdown = (source_suffix job \<in> set [''.md'', ''.markdown'']);
          converted_ok = (converts job \<and> temp_dir_exists pl);
          req = \<lparr>markdown_file_path =
                   (if is_already_markdown then input_source job else markdown_path job),
                 output_json_path = output_json_path_v,
                 req_id = None, req_name = None, req_metadata = None\<rparr>;
          result =
            (if \<not> is_already_markdown \<and> \<not> converted_ok
             then Failed (''Failed to convert '' @ [CHR 0x27] @ input_source job @ [CHR 0x27]
                            @ '' to markdown'') (input_source job)
             else
               let n = process_markdown_file (chunking job) req;
                   out = actual_output_path (chunking job) req
               in if ocr
                  then (case ocr_step job of
                          OcrRaises e \<Rightarrow> Failed e (input_source job)
                        | OcrChunks k \<Rightarrow> Succeeded (input_source job) out n k)
                  else Succeeded (input_source job) out n 0);
          pl' = (if cleanup_temp pl \<and> temp_dir_exists pl
                 then pl\<lparr>temp_dir_exists := False\<rparr> else pl)
      in (result, pl'))"

definition path_parts :: "string \<Rightarrow> string list" where
  \<comment> \<open>the components \<open>pathlib\<close> keeps: empty ones and \<open>.\<close> are dropped\<close>
  "path_parts d = filter (\<lambda>c. c \<noteq> [] \<and> c \<noteq> ''.'') (split_acc (CHR ''/'') [] d)"

definition path_root :: "string \<Rightarrow> string" where
  \<comment> \<open>one leading slash, or two when the path starts with exactly two\<close>
  "path_root d =
     (if startswith d ''//'' \<and> \<not> startswith d ''///'' then ''//''
      else if startswith d ''/'' then ''/''
      else [])"

definition pathlib_join :: "string \<Rightarrow> string \<Rightarrow> string" where
  \<comment> \<open>\<open>str(Path(d) / f)\<close> for a file name \<open>f\<close> that is one component\<close>
  "pathlib_join d f = path_root d @ join ''/'' (path_parts d @ [f])"

fun process_batch_serial ::
  "pipeline \<Rightarrow> bool \<Rightarrow> string \<Rightarrow> job_world list \<Rightarrow> job_result list \<times> pipeline" where
  \<comment> \<open>\<open>process_batch\<close> with \<open>max_concurrent = 1\<close>: the semaphore admits the tasks one
      after the other, in the order of \<open>input_sources\<close>, and \<open>gather\<close> returns the
      results in that order\<close>
  "process_batch_serial pl ocr output_dir [] = ([], pl)"
| "process_batch_serial pl ocr output_dir (job # rest) =
     (let (r, pl1) = process pl ocr
                       (pathlib_join output_dir (source_stem job @ ''_chunks.json'')) job;
          (rs, pl2) = process_batch_serial pl1 ocr output_dir rest
      in (r # rs, pl2))"

subsection \<open>Example batch\<close>

definition default_pipeline :: pipeline where
  \<comment> \<open>\<open>DocumentPipeline()\<close>: no \<open>temp_dir\<close> argument\<close>
  "default_pipeline = \<lparr>temp_dir_exists = True, cleanup_temp = True\<rparr>"

definition missing_pdf :: job_world where
  \<comment> \<open>a path with no file behind it\<close>
  "missing_pdf =
     \<lparr>input_source = ''missing.pdf'', source_suffix = ''.pdf'', source_stem = ''missing'',
      converts = False, markdown_path = ''missing.md'',
      chunking = demo_world\<lparr>file_text := None, converted := None\<rparr>,
      ocr_step = OcrChunks 0\<rparr>"

definition report_pdf :: job_world where
  "report_pdf =
     \<lparr>input_source = ''report.pdf'', source_suffix = ''.pdf'', source_stem = ''report'',
      converts = True, markdown_path = ''report.md'', chunking = demo_world,
      ocr_step = OcrChunks 0\<rparr>"

definition missing_md :: job_world where
  \<comment> \<open>a markdown path with no file behind it\<close>
  "missing_md =
     \<lparr>input_source = ''notes.md'', source_suffix = ''.md'', source_stem = ''notes'',
      converts = False, markdown_path = ''notes.md'',
      chunking = demo_world\<lparr>file_text := None, converted := None\<rparr>,
      ocr_step = OcrChunks 0\<rparr>"

section \<open>The admission gate of \<open>process_batch\<close>\<close>

text \<open>
  \<open>process_batch\<close> makes \<open>asyncio.Semaphore(max_concurrent)\<close> and one task per
  source; each task runs \<open>async with semaphore: ... await self.process(...)\<close>. The
  state of a batch is the value of the semaphore, the tasks waiting for it (first in,
  first out), the tasks inside the \<open>async with\<close> block, the tasks not yet started
  and the tasks that have returned. A task is a number, its position in
  \<open>input_sources\<close>.
\<close>

record batch_state =
  semaphore_value :: nat
  waiting :: "nat list"
  in_flight :: "nat list"  \<comment> \<open>tasks whose call of \<open>process\<close> has not returned\<close>
  not_started :: "nat list"
  returned_tasks :: "nat list"

definition initial_batch :: "nat \<Rightarrow> nat \<Rightarrow> batch_state" where
  "initial_batch max_concurrent n =
     \<lparr>semaphore_value = max_concurrent, waiting = [], in_flight = [],
      not_started = [0 ..< n], returned_tasks = []\<rparr>"

definition start_task :: "batch_state \<Rightarrow> batch_state list" where
  \<comment> \<open>the next task reaches \<open>async with semaphore\<close>: it enters when the semaphore is
      free and nobody waits, and queues otherwise\<close>
  "start_task s =
     (case not_started s of
        [] \<Rightarrow> []
      | t # ts \<Rightarrow>
          [if 0 < semaphore_value s \<and> waiting s = []
           then s\<lparr>not_started := ts, semaphore_value := semaphore_value s - 1,
                  in_flight := in_flight s @ [t]\<rparr>
           else s\<lparr>not_started := ts, waiting := waiting s @ [t]\<rparr>])"

definition wake_task :: "batch_state \<Rightarrow> batch_state list" where
  \<comment> \<open>the first waiting task acquires the semaphore once its value is positive\<close>
  "wake_task s =
     (case waiting s of
        [] \<Rightarrow> []
      | t # ts \<Rightarrow>
          if 0 < semaphore_value s
          then [s\<lparr>waiting := ts, semaphore_value := semaphore_value s - 1,
                  in_flight := in_flight s @ [t]\<rparr>]
          else [])"

definition finish_task :: "batch_state \<Rightarrow> batch_state list" where
  \<comment> \<open>\<open>process\<close> returns in some task, which leaves the block and releases\<close>
  "finish_task s =
     map (\<lambda>t. s\<lparr>in_flight := remove1 t (in_flight s),
                  semaphore_value := semaphore_value s + 1,
                  returned_tasks := returned_tasks s @ [t]\<rparr>)
         (remdups (in_flight s))"

definition next_states :: "batch_state \<Rightarrow> batch_state list" where
  "next_states s = start_task s @ wake_task s @ finish_task s"

inductive reachable :: "nat \<Rightarrow> nat \<Rightarrow> batch_state \<Rightarrow> bool"
  for max_concurrent :: nat and n :: nat where
  init: "reachable max_concurrent n (initial_batch max_concurrent n)"
| step: "reachable max_concurrent n s \<Longrightarrow> s' \<in> set (next_states s)
         \<Longrightarrow> reachable max_concurrent n s'"

section \<open>Properties of the table heuristic\<close>

subsection \<open>The code computes what the specification words\<close>

lemma win_Nil: "win lines [] = []"
  by (simp add: win_def)

lemma win_Cons:
  "win lines (i # is) =
     (if strip (lines ! i) = [] then win lines is else (i, strip (lines ! i)) # win lines is)"
  by (simp add: win_def)

text \<open>
  Every line number the scan reads is that of a line of the document: the anchors are
  line numbers, and the scan reads below an anchor only.
\<close>

lemma table_starts_from_bound:
  "i \<in> set (table_starts_from k in_table lines) \<Longrightarrow> k \<le> i \<and> i < k + length lines"
  by (induction lines arbitrary: k in_table) (fastforce simp: Let_def split: if_splits)+

lemma find_table_starts_bound:
  "table_idx < length (find_table_starts lines) \<Longrightarrow>
   find_table_starts lines ! table_idx < length lines"
  using table_starts_from_bound [of "find_table_starts lines ! table_idx" 0 False lines]
  by (simp add: find_table_starts_def)

lemma scan_range_bound: "i \<in> set (scan_range a) \<Longrightarrow> i < a"
  by (simp add: scan_range_def)

lemma find_subtitle_spec:
  "find_subtitle lines js =
     find (\<lambda>l. startswith l ''('' \<and> endswith l '')'') (map (\<lambda>j. strip (lines ! j)) js)"
  by (induction js) (auto simp: Let_def startswith_def)

lemma title_candidate_spec: "title_candidate l = spec_fallback_line l"
  by (simp add: title_candidate_def spec_fallback_line_def)

lemma candidate_not_falsy: "title_candidate l \<Longrightarrow> \<not> falsy (Some l)"
  by (auto simp: title_candidate_def falsy_def)

lemma scan_back_keep:
  "\<not> falsy potential \<Longrightarrow>
   scan_back lines a is potential =
     (case find is_heading (win lines is) of
        None \<Rightarrow> (None, None, potential)
      | Some (i, l) \<Rightarrow> (Some (strip (lstrip_hash l)), find_subtitle lines [i + 1 ..< a], potential))"
  by (induction "is") (auto simp: Let_def win_Nil win_Cons is_heading_def)

lemma scan_back_none:
  "scan_back lines a is None =
     (case find is_heading (win lines is) of
        None \<Rightarrow> (None, None, spec_fallback (win lines is))
      | Some (i, l) \<Rightarrow>
          (Some (strip (lstrip_hash l)), find_subtitle lines [i + 1 ..< a],
           spec_fallback (takeWhile (\<lambda>e. \<not> is_heading e) (win lines is))))"
proof (induction "is")
  case Nil
  show ?case by (simp add: win_Nil spec_fallback_def)
next
  case (Cons i "is")
  let ?l = "strip (lines ! i)"
  show ?case
  proof (cases "?l = []")
    case True
    with Cons show ?thesis by (simp add: win_Cons split: option.split)
  next
    case ne: False
    show ?thesis
    proof (cases "startswith ?l ''##''")
      case True
      with ne show ?thesis by (simp add: win_Cons is_heading_def spec_fallback_def)
    next
      case nh: False
      show ?thesis
      proof (cases "title_candidate ?l")
        case True
        then have nf: "\<not> falsy (Some ?l)" by (rule candidate_not_falsy)
        have "scan_back lines a (i # is) None = scan_back lines a is (Some ?l)"
          using ne nh True by (simp add: falsy_def)
        also have "\<dots> = (case find is_heading (win lines is) of
             None \<Rightarrow> (None, None, Some ?l)
           | Some (j, l) \<Rightarrow> (Some (strip (lstrip_hash l)), find_subtitle lines [j + 1 ..< a], Some ?l))"
          by (rule scan_back_keep [OF nf])
        finally show ?thesis
          using ne nh True
          by (auto simp: win_Cons is_heading_def spec_fallback_def title_candidate_spec split: option.splits)
      next
        case False
        with ne nh Cons show ?thesis
          by (auto simp: win_Cons is_heading_def spec_fallback_def title_candidate_spec split: option.splits)
      qed
    qed
  qed
qed

lemma win_scan_range: "win lines (scan_range a) = preceding_window lines a"
  by (simp add: win_def scan_range_def preceding_window_def)

lemma has_indicator_spec: "has_indicator (row_text row) = spec_row_matches row"
  by (simp add: has_indicator_def row_text_def spec_row_matches_def header_indicators_def
      fiscal_vocabulary_def list_ex_iff)

lemma detect_header_rows_spec: "detect_header_rows grid = spec_header_rows grid"
  by (simp add: detect_header_rows_def spec_header_rows_def has_indicator_spec Let_def)

lemma extract_reaches:
  assumes "\<not> falsy markdown_content" and "table_data \<noteq> []"
    and "table_idx < length (find_table_starts (split_lines (the markdown_content)))"
  shows "extract_markdown_table_title_and_header markdown_content table_idx table_data =
     (let lines = split_lines (the markdown_content);
          a = find_table_starts lines ! table_idx;
          (found_title, subtitle, potential) = scan_back lines a (scan_range a) None
      in (if falsy found_title \<and> \<not> falsy potential then potential else found_title,
          detect_header_rows table_data, subtitle))"
  using assms by (simp add: extract_markdown_table_title_and_header_def Let_def)

lemma spec_fallback_not_falsy: "spec_fallback w = Some c \<Longrightarrow> \<not> falsy (Some c)"
  by (auto simp: spec_fallback_def find_Some_iff spec_fallback_line_def falsy_def)

text \<open>
  Claim C8 as stated fails when the line lies more than four lines before the table.
  The document is a 30-character plain line, four empty lines and a table with a 2-row
  grid; no line starts with \<open>##\<close>. The line precedes the anchor (line 5), is the
  closest preceding line that is not a table row, has a length strictly between 10 and
  150 and does not start with \<open>*\<close>, yet the scan reads lines 4 to 1 only and the
  function returns no title.
\<close>

theorem C8_counterexample:
  "split_lines far_title_md ! 0 = ''Revenue by operating segments:''
   \<and> length ''Revenue by operating segments:'' = 30
   \<and> spec_fallback_line ''Revenue by operating segments:''
   \<and> find_table_starts (split_lines far_title_md) ! 0 = 5
   \<and> \<not> contains far_title_md ''##''
   \<and> spec_heading (split_lines far_title_md) 5 = None
   \<and> preceding_window (split_lines far_title_md) 5 = []
   \<and> length segment_grid = 2
   \<and> extract_markdown_table_title_and_header (Some far_title_md) 0 segment_grid
       = (None, 1, None)"
  by code_simp

text \<open>
  Claim C8, as amended. For a non-empty table grid whose table has an anchor line \<open>a\<close>
  in the markdown, the backward scan reads the four lines before the anchor, empty ones
  included. When it meets no line starting with \<open>##\<close>, the title returned is the
  closest of these lines that does not start with \<open>|\<close>, has length strictly between
  10 and 150 and does not start with \<open>*\<close>, and there is no title when none of them
  is such a line; lines are taken without surrounding whitespace. In particular, for a
  2-row grid whose closest non-empty line among these four has 30 characters and starts
  with neither \<open>|\<close> nor \<open>*\<close>, with no heading in the scan, the function returns that
  line as title, header-row count 1 and no subtitle.
\<close>

theorem C8_fallback_title:
  assumes "\<not> falsy markdown_content" and "table_data \<noteq> []"
    and "lines = split_lines (the markdown_content)"
    and "table_idx < length (find_table_starts lines)"
    and "a = find_table_starts lines ! table_idx"
    and "spec_heading lines a = None"
  shows "fst (extract_markdown_table_title_and_header markdown_content table_idx table_data)
           = spec_fallback (preceding_window lines a)
         \<and> (length table_data = 2 \<and> preceding_window lines a = (i, l) # rest
              \<and> length l = 30 \<and> \<not> startswith l ''|'' \<and> \<not> startswith l ''*''
            \<longrightarrow> extract_markdown_table_title_and_header markdown_content table_idx table_data
                  = (Some l, 1, None))"
proof -
  have sb: "scan_back lines a (scan_range a) None
              = (None, None, spec_fallback (preceding_window lines a))"
    using assms(6) by (simp add: scan_back_none win_scan_range spec_heading_def)
  have ex: "extract_markdown_table_title_and_header markdown_content table_idx table_data
              = (if \<not> falsy (spec_fallback (preceding_window lines a))
                 then spec_fallback (preceding_window lines a) else None,
                 detect_header_rows table_data, None)"
    using extract_reaches [of markdown_content table_data table_idx] assms(1-5) sb
    by (simp add: Let_def falsy_def)
  have t: "fst (extract_markdown_table_title_and_header markdown_content table_idx table_data)
             = spec_fallback (preceding_window lines a)"
  proof (cases "spec_fallback (preceding_window lines a)")
    case None
    then show ?thesis by (simp add: ex falsy_def)
  next
    case (Some c)
    then show ?thesis using spec_fallback_not_falsy [OF Some] by (simp add: ex)
  qed
  have e: "extract_markdown_table_title_and_header markdown_content table_idx table_data
             = (Some l, 1, None)"
    if h: "length table_data = 2" "preceding_window lines a = (i, l) # rest" "length l = 30"
      "\<not> startswith l ''|''" "\<not> startswith l ''*''"
  proof -
    from h(3) have ne: "l \<noteq> []" by auto
    have "spec_fallback (preceding_window lines a) = Some l"
      using h(2-5) by (simp add: spec_fallback_def spec_fallback_line_def)
    moreover have "detect_header_rows table_data = 1"
      using h(1) by (simp add: detect_header_rows_def)
    ultimately show ?thesis using ne by (simp add: ex falsy_def)
  qed
  from t e show ?thesis by blast
qed

text \<open>
  The instance of C8 at a 30-character line, an empty line and a table of two grid rows.
\<close>

theorem C8_fallback_title_witness:
  "extract_markdown_table_title_and_header (Some segment_md) 0 segment_grid
     = (Some ''Revenue by operating segments:'', 1, None)
   \<and> length ''Revenue by operating segments:'' = 30"
proof -
  let ?lines = "[''Revenue by operating segments:'', [], ''|A|B|'', ''|-|-|'', ''|10|20|'']"
  have l: "split_lines (the (Some segment_md)) = ?lines" by code_simp
  have s: "find_table_starts ?lines = [2]" by code_simp
  have h1: "\<not> falsy (Some segment_md)" by code_simp
  have h2: "segment_grid \<noteq> []" by code_simp
  have h4: "0 < length (find_table_starts ?lines)" by (simp add: s)
  have h5: "2 = find_table_starts ?lines ! 0" by (simp add: s)
  have h6: "spec_heading ?lines 2 = None" by code_simp
  have w: "preceding_window ?lines 2 = (0, ''Revenue by operating segments:'') # []"
    by code_simp
  have a1: "\<not> startswith ''Revenue by operating segments:'' ''|''" by code_simp
  have a2: "\<not> startswith ''Revenue by operating segments:'' ''*''" by code_simp
  have a3: "length segment_grid = 2" by code_simp
  from C8_fallback_title [OF h1 h2 l [symmetric] h4 h5 h6,
      of 0 "''Revenue by operating segments:''" "[]"] w a1 a2 a3
  show ?thesis by simp
qed

lemma preceding_window_length: "length (preceding_window lines a) \<le> 4"
proof -
  have "length (preceding_window lines a)
          \<le> length (map (\<lambda>i. (i, strip (lines ! i))) (rev [a - 4 ..< a]))"
    unfolding preceding_window_def by (rule length_filter_le)
  also have "\<dots> \<le> 4" by simp
  finally show ?thesis .
qed

text \<open>
  Claim C6, as amended. For a non-empty table grid whose table has an anchor line \<open>a\<close>
  in the markdown, the function looks backward over the four lines before the anchor,
  skipping empty ones, so over at most four non-empty lines. When the first line met
  that starts with \<open>##\<close> is line \<open>i\<close> with stripped text \<open>l\<close>, the title is \<open>l\<close>
  without its leading \<open>#\<close> characters and surrounding whitespace, except that when
  this text is empty the closest fallback candidate between heading and table is
  returned instead (and the empty string when there is none); the subtitle is the first
  line strictly between the heading and the anchor that starts with \<open>(\<close> and ends
  with \<open>)\<close>.
\<close>

theorem C6_title_subtitle:
  assumes "\<not> falsy markdown_content" and "table_data \<noteq> []"
    and "lines = split_lines (the markdown_content)"
    and "table_idx < length (find_table_starts lines)"
    and "a = find_table_starts lines ! table_idx"
    and "spec_heading lines a = Some (i, l)"
  shows "length (preceding_window lines a) \<le> 4
         \<and> fst (extract_markdown_table_title_and_header markdown_content table_idx table_data)
             = (if strip (lstrip_hash l) = []
                then (case spec_fallback (spec_before_heading lines a) of
                        None \<Rightarrow> Some [] | Some c \<Rightarrow> Some c)
                else Some (strip (lstrip_hash l)))
         \<and> snd (snd (extract_markdown_table_title_and_header markdown_content table_idx table_data))
             = spec_subtitle lines i a"
proof -
  have sb: "scan_back lines a (scan_range a) None
              = (Some (strip (lstrip_hash l)), spec_subtitle lines i a,
                 spec_fallback (spec_before_heading lines a))"
    using assms(6)
    by (simp add: scan_back_none win_scan_range spec_heading_def spec_before_heading_def
        find_subtitle_spec spec_subtitle_def)
  have ex: "extract_markdown_table_title_and_header markdown_content table_idx table_data
              = (if falsy (Some (strip (lstrip_hash l)))
                    \<and> \<not> falsy (spec_fallback (spec_before_heading lines a))
                 then spec_fallback (spec_before_heading lines a)
                 else Some (strip (lstrip_hash l)),
                 detect_header_rows table_data, spec_subtitle lines i a)"
    using extract_reaches [of markdown_content table_data table_idx] assms(1-5) sb
    by (simp add: Let_def)
  have t: "fst (extract_markdown_table_title_and_header markdown_content table_idx table_data)
             = (if strip (lstrip_hash l) = []
                then (case spec_fallback (spec_before_heading lines a) of
                        None \<Rightarrow> Some [] | Some c \<Rightarrow> Some c)
                else Some (strip (lstrip_hash l)))"
  proof (cases "spec_fallback (spec_before_heading lines a)")
    case None
    then show ?thesis by (simp add: ex falsy_def)
  next
    case (Some c)
    then show ?thesis using spec_fallback_not_falsy [OF Some] by (simp add: ex falsy_def)
  qed
  show ?thesis using t preceding_window_length by (simp add: ex)
qed

text \<open>
  The instance of C6 at the markdown of the specification's example, table index 0:
  title \<open>Revenue by Segment\<close>, subtitle \<open>(in millions)\<close>.
\<close>

theorem C6_title_subtitle_witness:
  "fst (extract_markdown_table_title_and_header (Some revenue_md) 0 revenue_grid)
     = Some ''Revenue by Segment''
   \<and> snd (snd (extract_markdown_table_title_and_header (Some revenue_md) 0 revenue_grid))
     = Some ''(in millions)''"
proof -
  let ?lines = "[''## Revenue by Segment'', ''(in millions)'', ''|A|B|'', ''|-|-|'',
                 ''|2024|2025|'', ''|10|20|'']"
  have l: "split_lines (the (Some revenue_md)) = ?lines" by code_simp
  have s: "find_table_starts ?lines = [2]" by code_simp
  have h1: "\<not> falsy (Some revenue_md)" by code_simp
  have h2: "revenue_grid \<noteq> []" by code_simp
  have h4: "0 < length (find_table_starts ?lines)" by (simp add: s)
  have h5: "2 = find_table_starts ?lines ! 0" by (simp add: s)
  have h6: "spec_heading ?lines 2 = Some (0, ''## Revenue by Segment'')" by code_simp
  have t: "strip (lstrip_hash ''## Revenue by Segment'') = ''Revenue by Segment''" by code_simp
  have u: "spec_subtitle ?lines 0 2 = Some ''(in millions)''" by code_simp
  from C6_title_subtitle [OF h1 h2 l [symmetric] h4 h5 h6] t u
  show ?thesis by simp
qed

text \<open>
  Claim C6 as stated fails when the heading consists of \<open>#\<close> characters only: the
  heading line \<open>##\<close> is the first line starting with \<open>##\<close> in the scan and its
  stripped text is empty, yet the title returned is the plain line between heading and
  table.
\<close>

theorem C6_counterexample:
  "spec_heading (split_lines empty_heading_md) 2 = Some (0, ''##'')
   \<and> find_table_starts (split_lines empty_heading_md) ! 0 = 2
   \<and> strip (lstrip_hash ''##'') = []
   \<and> fst (extract_markdown_table_title_and_header (Some empty_heading_md) 0 [[''A'', ''B'']])
       = Some ''Some plain text line''"
  by code_simp

text \<open>
  Claim C7 as stated fails when the markdown has fewer table runs than the table index:
  the grid has three rows, its second row contains a fiscal token and its third does
  not, so the claim gives 2, and the function returns 1.
\<close>

theorem C7_counterexample:
  "3 \<le> length fiscal_grid \<and> spec_row_matches (fiscal_grid ! 1)
   \<and> \<not> spec_row_matches (fiscal_grid ! 2)
   \<and> fst (snd (extract_markdown_table_title_and_header (Some one_table_md) 1 fiscal_grid)) = 1"
  by code_simp

text \<open>
  Claim C7, as amended. When the stored markdown is empty or holds no table run for
  \<open>table_idx\<close>, the header-row count returned is 1 whatever the grid. Otherwise it is
  1 by default, 2 when the grid has at least 3 rows and the lowercased, space-joined
  text of the second row contains a token of the fiscal vocabulary, and 3 when the third
  row matches as well; rows beyond the third never change it, a grid with fewer than 3
  rows gives 1, and the count is always 1, 2 or 3.
\<close>

theorem C7_header_rows:
  "fst (snd (extract_markdown_table_title_and_header markdown_content table_idx table_data))
     = (if falsy markdown_content
           \<or> length (find_table_starts (split_lines (the markdown_content))) \<le> table_idx
        then 1 else spec_header_rows table_data)
   \<and> spec_header_rows table_data = spec_header_rows (take 3 table_data)
   \<and> (length table_data < 3 \<longrightarrow> spec_header_rows table_data = 1)
   \<and> spec_header_rows table_data \<in> {1, 2, 3}"
proof -
  have c: "fst (snd (extract_markdown_table_title_and_header markdown_content table_idx table_data))
             = (if falsy markdown_content
                   \<or> length (find_table_starts (split_lines (the markdown_content))) \<le> table_idx
                then 1 else spec_header_rows table_data)"
  proof (cases "falsy markdown_content
      \<or> length (find_table_starts (split_lines (the markdown_content))) \<le> table_idx")
    case True
    then show ?thesis
      by (auto simp: extract_markdown_table_title_and_header_def Let_def)
  next
    case reach: False
    show ?thesis
    proof (cases "table_data = []")
      case True
      then show ?thesis
        using reach by (simp add: extract_markdown_table_title_and_header_def spec_header_rows_def)
    next
      case False
      from reach have "\<not> falsy markdown_content"
        and "table_idx < length (find_table_starts (split_lines (the markdown_content)))"
        by simp_all
      from extract_reaches [OF this(1) False this(2)] reach show ?thesis
        by (simp add: Let_def detect_header_rows_spec split: prod.splits)
    qed
  qed
  have k: "spec_header_rows table_data = spec_header_rows (take 3 table_data)"
    by (simp add: spec_header_rows_def)
  show ?thesis using c k by (simp add: spec_header_rows_def)
qed

text \<open>
  The instance of C7 at the specification's example: header-row count 2.
\<close>

theorem C7_header_rows_witness:
  "fst (snd (extract_markdown_table_title_and_header (Some revenue_md) 0 revenue_grid)) = 2"
proof -
  have h: "\<not> (falsy (Some revenue_md)
             \<or> length (find_table_starts (split_lines (the (Some revenue_md)))) \<le> 0)"
    by code_simp
  have v: "spec_header_rows revenue_grid = 2" by code_simp
  from C7_header_rows [of "Some revenue_md" 0 revenue_grid] h v show ?thesis by simp
qed

section \<open>Properties of the streaming chunk writer\<close>

subsection \<open>The log only grows\<close>

lemma written_append: "written path (xs @ ys) = written path xs @ written path ys"
  by (induction path xs rule: written.induct) simp_all

lemma chunks_of_append: "chunks_of (xs @ ys) = chunks_of xs @ chunks_of ys"
  by (induction xs rule: chunks_of.induct) simp_all

lemma written_write_all:
  "written path (ops (write_all path pss w)) = written path (ops w) @ concat pss"
  by (induction pss rule: rev_induct) (simp_all add: write_all_def written_append)

lemma Index_var_write_all [simp]: "Index_var (write_all path pss w) = Index_var w"
  by (simp add: write_all_def)

lemma is_first_chunk_write_all [simp]: "is_first_chunk (write_all path pss w) = is_first_chunk w"
  by (simp add: write_all_def)

lemma written_close_file [simp]: "written path (ops (close_file path w)) = written path (ops w)"
  by (simp add: close_file_def written_append)

lemma Index_var_close_file [simp]: "Index_var (close_file path w) = Index_var w"
  by (simp add: close_file_def)

subsection \<open>The Index fields count the committed chunks\<close>

lemma index_inv_separator: "index_inv path w \<Longrightarrow> index_inv path (write_separator path w)"
  by (simp add: index_inv_def write_separator_def write_data_def written_append chunks_of_append)

lemma Index_var_separator [simp]: "Index_var (write_separator path w) = Index_var w"
  by (simp add: write_separator_def write_data_def)

lemma index_inv_commit:
  "index_inv path w \<Longrightarrow> Index c = Index_var w \<Longrightarrow> index_inv path (commit_chunk path c w)"
  by (simp add: index_inv_def commit_chunk_def write_data_def flush_file_def written_append
      chunks_of_append)

lemma index_inv_table:
  "index_inv path w \<Longrightarrow> index_inv path (process_table path metadata mc table_idx table w)"
  by (auto simp: process_table_def Let_def index_inv_separator index_inv_commit
      split: prod.splits)

lemma index_inv_tables:
  "index_inv path w \<Longrightarrow> index_inv path (process_tables path metadata mc table_idx tables w)"
  by (induction tables arbitrary: table_idx w) (simp_all add: index_inv_table)

lemma index_inv_text_chunks:
  "index_inv path w \<Longrightarrow> index_inv path (snd (process_text_chunks path metadata chunks w))"
proof (induction chunks arbitrary: w)
  case Nil
  then show ?case by simp
next
  case (Cons chunk rest)
  then show ?case
    by (auto simp: Let_def index_inv_separator index_inv_commit)
qed

lemma index_inv_write_all:
  "index_inv path w \<Longrightarrow> chunks_of (concat pss) = [] \<Longrightarrow> index_inv path (write_all path pss w)"
  by (simp add: index_inv_def written_write_all chunks_of_append)

lemma index_inv_stream:
  "index_inv path (snd (stream_chunks path name_v id_v metadata md_text tables chunks))"
proof -
  let ?w1 = "write_all path (header_pieces name_v id_v)
               \<lparr>ops = [OpenWrite path], Index_var = 0, is_first_chunk = True\<rparr>"
  let ?w2 = "process_tables path metadata (Some md_text) 0 tables ?w1"
  obtain err w3 where r: "process_text_chunks path metadata chunks ?w2 = (err, w3)"
    by (cases "process_text_chunks path metadata chunks ?w2")
  have "index_inv path \<lparr>ops = [OpenWrite path], Index_var = 0, is_first_chunk = True\<rparr>"
    by (simp add: index_inv_def)
  then have "index_inv path ?w1"
    by (rule index_inv_write_all) (simp add: header_pieces_def)
  then have "index_inv path ?w2" by (rule index_inv_tables)
  then have "index_inv path (snd (process_text_chunks path metadata chunks ?w2))"
    by (rule index_inv_text_chunks)
  then have w3: "index_inv path w3" by (simp add: r)
  then have "index_inv path (write_all path footer_pieces w3)"
    by (rule index_inv_write_all) (simp add: footer_pieces_def)
  with w3 show ?thesis
    by (cases err) (simp_all add: stream_chunks_def r index_inv_def)
qed

lemma index_inv_run:
  "index_inv (actual_output_path world req) (snd (process_markdown_file_run world req))"
proof -
  have empty: "index_inv p \<lparr>ops = [], Index_var = 0, is_first_chunk = True\<rparr>" for p
    by (simp add: index_inv_def)
  show ?thesis
    by (simp add: process_markdown_file_run_def Let_def empty index_inv_stream
        split: option.splits prod.splits)
qed

text \<open>
  Claim C1. When a run of \<open>process_markdown_file\<close> completes without leaving through
  the handler of the function, the \<open>Index\<close> fields of the chunk objects in the output
  file, read in file order (the order of the writes), are 0, 1, ..., n - 1, where n
  is the value returned; tables and text chunks that were skipped, for a failure or
  for being empty, leave no gap.
\<close>

theorem C1_index_gapless:
  assumes "process_markdown_file_run world req = (None, w)"
  shows "map Index (chunks_of (written (actual_output_path world req) (ops w)))
           = [0 ..< process_markdown_file world req]"
  using index_inv_run [of world req] assms
  by (simp add: index_inv_def process_markdown_file_def)

text \<open>
  The instance of C1 at a document with three tables, the second without data, and two
  text chunks, the first too short: three chunks are written, with Index 0, 1 and 2.
\<close>

theorem C1_index_gapless_witness:
  "fst (process_markdown_file_run demo_world demo_request) = None
   \<and> map Index (chunks_of (written ''out/report_chunks.json''
         (ops (snd (process_markdown_file_run demo_world demo_request))))) = [0, 1, 2]"
proof -
  have f: "fst (process_markdown_file_run demo_world demo_request) = None"
    by code_simp
  have r: "process_markdown_file_run demo_world demo_request
             = (None, snd (process_markdown_file_run demo_world demo_request))"
    by (simp add: prod_eq_iff f)
  have p: "actual_output_path demo_world demo_request = ''out/report_chunks.json''"
    by code_simp
  have n: "[0 ..< process_markdown_file demo_world demo_request] = [0, 1, 2]"
    by code_simp
  from C1_index_gapless [OF r] p n f show ?thesis
    by simp
qed

subsection \<open>The output of a successful run is a JSON document\<close>

lemma sep_chunks_snoc:
  "sep_chunks (cs @ [c]) =
     (if cs = [] then [JsonChunk c] else sep_chunks cs @ [Text ('','' @ nl), JsonChunk c])"
  by (cases cs) simp_all

lemma tokens_of_append:
  "tokens_of (xs @ ys) =
     (case tokens_of xs of
        None \<Rightarrow> None
      | Some ts \<Rightarrow> map_option ((@) ts) (tokens_of ys))"
proof (induction xs rule: tokens_of.induct)
  case 1
  then show ?case by (cases "tokens_of ys") simp_all
next
  case (2 s ps)
  then show ?case
    by (cases "lex_text None s"; cases "tokens_of ps"; cases "tokens_of ys")
       (simp_all add: option.map_comp comp_def)
next
  case (3 s ps)
  then show ?case
    by (cases "tokens_of ps"; cases "tokens_of ys") (simp_all add: option.map_comp comp_def)
next
  case (4 c ps)
  then show ?case
    by (cases "tokens_of ps"; cases "tokens_of ys") (simp_all add: option.map_comp comp_def)
qed

lemma lex_separator: "lex_text None (CHR '','' # nl) = Some [Comma]"
  by (simp add: nl_def punct_def)

lemma tokens_of_sep_tail:
  "tokens_of (concat (map (\<lambda>c'. [Text ('','' @ nl), JsonChunk c']) cs))
     = Some (concat (map (\<lambda>c'. [Comma, Obj c']) cs))"
  by (induction cs) (simp_all add: lex_separator del: lex_text.simps)

lemma tokens_of_sep_chunks: "tokens_of (sep_chunks cs) = Some (sep_toks cs)"
  using tokens_of_sep_tail [of "tl cs"] by (cases cs) simp_all

lemma tokens_of_header:
  "tokens_of (concat (header_pieces name_v id_v)) = Some (header_toks name_v id_v)"
  by (simp add: header_pieces_def header_toks_def nl_def dq_def punct_def)

lemma tokens_of_footer: "tokens_of (concat footer_pieces) = Some [RBrack, RBrace]"
  by (simp add: footer_pieces_def nl_def punct_def)

lemma tokens_of_file:
  "tokens_of (concat (header_pieces name_v id_v) @ sep_chunks cs @ concat footer_pieces)
     = Some (header_toks name_v id_v @ sep_toks cs @ [RBrack, RBrace])"
  by (simp add: tokens_of_append tokens_of_header tokens_of_sep_chunks tokens_of_footer)

lemma json_run_tail:
  "json_run CommaOrClose [InArray, InObject]
     (concat (map (\<lambda>c'. [Comma, Obj c']) cs) @ [RBrack, RBrace])"
  by (induction cs) (simp_all add: close_ctx_def after_value_def start_value_def)

lemma json_run_array:
  "json_run ValueOrClose [InArray, InObject] (sep_toks cs @ [RBrack, RBrace])"
  by (cases cs) (simp_all add: close_ctx_def after_value_def start_value_def json_run_tail)

lemma valid_json_file: "valid_json (header_toks name_v id_v @ sep_toks cs @ [RBrack, RBrace])"
  by (simp add: valid_json_def header_toks_def start_value_def after_value_def json_run_array)

lemma top_members_tail:
  "top_members d (concat (map (\<lambda>c'. [Comma, Obj c']) cs) @ [RBrack, RBrace]) = []"
  by (induction cs) simp_all

lemma top_members_array: "top_members d (sep_toks cs @ [RBrack, RBrace]) = []"
  by (cases cs) (simp_all add: top_members_tail)

lemma top_members_file:
  "top_members 0 (header_toks name_v id_v @ sep_toks cs @ [RBrack, RBrace])
     = [(''name'', Str name_v), (''id'', Str id_v), (''chunks'', LBrack)]"
  by (simp add: header_toks_def top_members_array)

lemma valid_chunk_file_shape:
  "valid_chunk_file (concat (header_pieces name_v id_v) @ sep_chunks cs @ concat footer_pieces)"
  by (simp add: valid_chunk_file_def tokens_of_file valid_json_file top_members_file)

lemma shape_inv_commit:
  assumes "shape_inv path hdr w"
  shows "shape_inv path hdr (commit_chunk path c (write_separator path w))"
proof -
  from assms obtain cs where
    cs: "written path (ops w) = hdr @ sep_chunks cs" "is_first_chunk w \<longleftrightarrow> cs = []"
    unfolding shape_inv_def by blast
  have "written path (ops (commit_chunk path c (write_separator path w)))
          = hdr @ sep_chunks (cs @ [c])"
    using cs
    by (simp add: commit_chunk_def write_separator_def write_data_def flush_file_def
        written_append sep_chunks_snoc)
  moreover have "\<not> is_first_chunk (commit_chunk path c (write_separator path w))"
    by (simp add: commit_chunk_def write_separator_def write_data_def flush_file_def)
  ultimately show ?thesis unfolding shape_inv_def by blast
qed

lemma json_serialisable_update:
  "json_serialisable m \<Longrightarrow> v \<noteq> MOpaque \<Longrightarrow> json_serialisable (AList.update k v m)"
  by (induction m) (auto simp: json_serialisable_def)

lemma json_serialisable_merged:
  "json_serialisable m \<Longrightarrow> json_serialisable (chunk_metadata_of m title kind)"
  by (simp add: chunk_metadata_of_def json_serialisable_update)

lemma shape_inv_table:
  "json_serialisable metadata \<Longrightarrow> shape_inv path hdr w \<Longrightarrow>
   shape_inv path hdr (process_table path metadata mc table_idx table w)"
  by (simp add: process_table_def Let_def shape_inv_commit json_serialisable_merged
      split: prod.splits)

lemma shape_inv_tables:
  "json_serialisable metadata \<Longrightarrow> shape_inv path hdr w \<Longrightarrow>
   shape_inv path hdr (process_tables path metadata mc table_idx tables w)"
  by (induction tables arbitrary: table_idx w) (simp_all add: shape_inv_table)

lemma shape_inv_text_chunks:
  "json_serialisable metadata \<Longrightarrow> shape_inv path hdr w \<Longrightarrow>
   fst (process_text_chunks path metadata chunks w) = None
   \<and> shape_inv path hdr (snd (process_text_chunks path metadata chunks w))"
  by (induction chunks arbitrary: w)
     (simp_all add: Let_def shape_inv_commit json_serialisable_merged)

lemma stream_chunks_valid:
  assumes "json_serialisable metadata"
  shows "fst (stream_chunks path name_v id_v metadata md_text tables chunks) = None
         \<and> valid_chunk_file
             (written path (ops (snd (stream_chunks path name_v id_v metadata md_text tables chunks))))"
proof -
  let ?hdr = "concat (header_pieces name_v id_v)"
  let ?w1 = "write_all path (header_pieces name_v id_v)
               \<lparr>ops = [OpenWrite path], Index_var = 0, is_first_chunk = True\<rparr>"
  let ?w2 = "process_tables path metadata (Some md_text) 0 tables ?w1"
  obtain err w3 where r: "process_text_chunks path metadata chunks ?w2 = (err, w3)"
    by (cases "process_text_chunks path metadata chunks ?w2")
  have "written path (ops ?w1) = ?hdr @ sep_chunks []"
    by (simp add: written_write_all)
  then have "shape_inv path ?hdr ?w1"
    unfolding shape_inv_def by (intro exI [of _ "[]"]) simp
  then have "shape_inv path ?hdr ?w2"
    by (rule shape_inv_tables [OF assms])
  from shape_inv_text_chunks [OF assms this, of chunks]
  have e: "err = None" and s: "shape_inv path ?hdr w3"
    by (simp_all add: r)
  from s obtain cs where cs: "written path (ops w3) = ?hdr @ sep_chunks cs"
    unfolding shape_inv_def by blast
  have "stream_chunks path name_v id_v metadata md_text tables chunks
          = (None, close_file path (write_all path footer_pieces w3))"
    by (simp add: stream_chunks_def r e)
  moreover have "written path (ops (close_file path (write_all path footer_pieces w3)))
          = ?hdr @ sep_chunks cs @ concat footer_pieces"
    by (simp add: written_write_all cs)
  ultimately show ?thesis
    by (simp add: valid_chunk_file_shape)
qed

text \<open>
  With metadata that \<open>json.dumps\<close> accepts, every run that gets as far as opening the
  output file completes and leaves a JSON document with top-level \<open>name\<close>, \<open>id\<close> and
  \<open>chunks\<close>, the chunks separated by commas, whatever the number of chunks.
\<close>

lemma valid_when_serialisable:
  assumes "process_markdown_file_run world req = (None, w)"
    and "json_serialisable (case req_metadata req of None \<Rightarrow> [] | Some m \<Rightarrow> m)"
  shows "valid_chunk_file (written (actual_output_path world req) (ops w))"
proof -
  from assms(1) obtain md_text tables chunks where
    "file_text world = Some md_text" "converted world = Some (tables, chunks)"
    "output_writable world"
    by (auto simp: process_markdown_file_run_def Let_def
        split: option.splits prod.splits if_splits)
  then have "process_markdown_file_run world req
               = stream_chunks (actual_output_path world req)
                   (case req_name req of None \<Rightarrow> input_basename world | Some n \<Rightarrow> n)
                   (case req_id req of None \<Rightarrow> fresh_uuid world | Some i \<Rightarrow> i)
                   (case req_metadata req of None \<Rightarrow> [] | Some m \<Rightarrow> m)
                   md_text tables chunks"
    by (simp add: process_markdown_file_run_def Let_def)
  with stream_chunks_valid [OF assms(2)] assms(1) show ?thesis
    by (metis snd_conv)
qed

text \<open>
  Claim C3 fails on the code. The request carries metadata with a value that
  \<open>json.dumps\<close> rejects, and the document has two tables with data and no text chunk.
  For the first table the flag \<open>is_first_chunk\<close> is cleared and \<open>json.dumps\<close> raises;
  for the second the separator is written and \<open>json.dumps\<close> raises again; both
  exceptions are caught by the handler of the table loop. The run completes, returns 0,
  and the array \<open>chunks\<close> of the output file holds a lone comma: the file is not a JSON
  document.
\<close>

theorem C3_dangling_separator:
  "fst (process_markdown_file_run tables_only_world opaque_request) = None
   \<and> process_markdown_file tables_only_world opaque_request = 0
   \<and> tokens_of (written (actual_output_path tables_only_world opaque_request)
        (ops (snd (process_markdown_file_run tables_only_world opaque_request))))
       = Some [LBrace, Str ''name'', Colon, Str ''report.md'', Comma,
               Str ''id'', Colon, Str ''00000000-0000-4000-8000-000000000000'', Comma,
               Str ''chunks'', Colon, LBrack, Comma, RBrack, RBrace]
   \<and> \<not> valid_chunk_file
         (written (actual_output_path tables_only_world opaque_request)
           (ops (snd (process_markdown_file_run tables_only_world opaque_request))))"
  by code_simp

section \<open>Properties of the writes to a chunk-output path\<close>

lemma stream_chunks_opens:
  "\<exists>rest. ops (snd (stream_chunks path name_v id_v metadata md_text tables chunks))
            = OpenWrite path # rest"
proof -
  have sep: "\<exists>r. ops (write_separator path w) = ops w @ r" for w
    by (simp add: write_separator_def write_data_def)
  have com: "\<exists>r. ops (commit_chunk path c (write_separator path w)) = ops w @ r" for c w
    using sep [of w] by (auto simp: commit_chunk_def write_data_def flush_file_def)
  have tab: "\<exists>r. ops (process_table path metadata mc i t w) = ops w @ r" for mc i t w
    using sep [of w] com [of _ w]
    by (auto simp: process_table_def Let_def split: prod.splits)
  have tabs: "\<exists>r. ops (process_tables path metadata mc i ts w) = ops w @ r" for mc i ts w
  proof (induction ts arbitrary: i w)
    case Nil
    show ?case by simp
  next
    case (Cons t ts)
    from tab [of mc i t w] obtain r1 where
      r1: "ops (process_table path metadata mc i t w) = ops w @ r1" by blast
    from Cons [of "Suc i" "process_table path metadata mc i t w"] obtain r2 where
      "ops (process_tables path metadata mc (Suc i) ts (process_table path metadata mc i t w))
         = ops (process_table path metadata mc i t w) @ r2" by blast
    with r1 show ?case by simp
  qed
  have txs: "\<exists>r. ops (snd (process_text_chunks path metadata cs w)) = ops w @ r" for cs w
  proof (induction cs arbitrary: w)
    case Nil
    show ?case by simp
  next
    case (Cons c cs)
    let ?c = "\<lparr>Index = Index_var w, payload = TextPayload (chunk_text_for_embedding c),
               chunk_metadata = chunk_metadata_of metadata (take 100 (text_section_title c))
                 ''text''\<rparr>"
    from com [of ?c w] obtain r1 where
      r1: "ops (commit_chunk path ?c (write_separator path w)) = ops w @ r1" by blast
    from Cons [of "commit_chunk path ?c (write_separator path w)"] obtain r2 where
      r2: "ops (snd (process_text_chunks path metadata cs
                 (commit_chunk path ?c (write_separator path w))))
             = ops (commit_chunk path ?c (write_separator path w)) @ r2" by blast
    from Cons [of w] sep [of w] r1 r2 show ?case
      by (auto simp: Let_def)
  qed
  let ?w1 = "write_all path (header_pieces name_v id_v)
               \<lparr>ops = [OpenWrite path], Index_var = 0, is_first_chunk = True\<rparr>"
  let ?w2 = "process_tables path metadata (Some md_text) 0 tables ?w1"
  obtain err w3 where r: "process_text_chunks path metadata chunks ?w2 = (err, w3)"
    by (cases "process_text_chunks path metadata chunks ?w2")
  have "\<exists>r. ops ?w1 = [OpenWrite path] @ r" by (simp add: write_all_def)
  moreover from tabs [of "Some md_text" 0 tables ?w1]
  have "\<exists>r. ops ?w2 = ops ?w1 @ r" .
  moreover from txs [of chunks ?w2] have "\<exists>r. ops w3 = ops ?w2 @ r" by (simp add: r)
  ultimately obtain r' where w3: "ops w3 = OpenWrite path # r'" by auto
  have "stream_chunks path name_v id_v metadata md_text tables chunks
          = (case err of
               Some e \<Rightarrow> (Some e, close_file path w3)
             | None \<Rightarrow> (None, close_file path (write_all path footer_pieces w3)))"
    by (simp add: stream_chunks_def r)
  with w3 show ?thesis
    by (cases err) (simp_all add: close_file_def write_all_def)
qed

text \<open>
  Claim C2 fails on the code. Whenever \<open>process_markdown_file\<close> gets as far as its
  output, it opens the output path itself for writing and streams into it: no lock is
  taken and nothing is renamed, so the discipline of the claim does not hold of its file
  operations. The read-modify-write that appends the OCR chunks opens the same path with
  mode \<open>'w'\<close> in the same way. \<open>save_markdown_async\<close> of \<open>md_converter.py\<close> does follow
  the discipline for the markdown files.
\<close>

theorem C2_no_lock_no_rename:
  "(file_text world \<noteq> None \<and> converted world \<noteq> None \<and> output_writable world \<longrightarrow>
      \<not> guarded_atomic (actual_output_path world req) False
          (ops (snd (process_markdown_file_run world req))))
   \<and> \<not> guarded_atomic path False (ocr_append_ops path data)
   \<and> (temp_file \<noteq> path \<longrightarrow>
        guarded_atomic path False (save_markdown_async_ops temp_file path md_text))"
proof -
  have a: "\<not> guarded_atomic (actual_output_path world req) False
             (ops (snd (process_markdown_file_run world req)))"
    if "file_text world \<noteq> None" "converted world \<noteq> None" "output_writable world"
  proof -
    from that obtain md_text tables chunks where
      "file_text world = Some md_text" "converted world = Some (tables, chunks)"
      "output_writable world"
      by auto
    then have "process_markdown_file_run world req
                 = stream_chunks (actual_output_path world req)
                     (case req_name req of None \<Rightarrow> input_basename world | Some n \<Rightarrow> n)
                     (case req_id req of None \<Rightarrow> fresh_uuid world | Some i \<Rightarrow> i)
                     (case req_metadata req of None \<Rightarrow> [] | Some m \<Rightarrow> m)
                     md_text tables chunks"
      by (simp add: process_markdown_file_run_def Let_def)
    with stream_chunks_opens obtain rest where
      "ops (snd (process_markdown_file_run world req))
         = OpenWrite (actual_output_path world req) # rest"
      by metis
    then show ?thesis by simp
  qed
  have b: "\<not> guarded_atomic path False (ocr_append_ops path data)"
    by (simp add: ocr_append_ops_def)
  have c: "guarded_atomic path False (save_markdown_async_ops temp_file path md_text)"
    if "temp_file \<noteq> path"
    using that by (simp add: save_markdown_async_ops_def)
  from a b c show ?thesis by blast
qed

text \<open>
  The instance of C2 at a run with three chunks: the log starts by opening the output
  path for writing, and at the first flush the path holds a file that is not yet a JSON
  document.
\<close>

theorem C2_no_lock_no_rename_witness:
  "\<not> guarded_atomic ''out/report_chunks.json'' False
       (ops (snd (process_markdown_file_run demo_world demo_request)))
   \<and> take 1 (ops (snd (process_markdown_file_run demo_world demo_request)))
       = [OpenWrite ''out/report_chunks.json'']
   \<and> ops (snd (process_markdown_file_run demo_world demo_request)) ! 6
       = FlushFile ''out/report_chunks.json''
   \<and> \<not> valid_chunk_file (written ''out/report_chunks.json''
         (take 7 (ops (snd (process_markdown_file_run demo_world demo_request)))))"
proof -
  have p: "actual_output_path demo_world demo_request = ''out/report_chunks.json''"
    by code_simp
  have h: "file_text demo_world \<noteq> None \<and> converted demo_world \<noteq> None
           \<and> output_writable demo_world"
    by code_simp
  have o: "take 1 (ops (snd (process_markdown_file_run demo_world demo_request)))
             = [OpenWrite ''out/report_chunks.json'']
           \<and> ops (snd (process_markdown_file_run demo_world demo_request)) ! 6
             = FlushFile ''out/report_chunks.json''
           \<and> \<not> valid_chunk_file (written ''out/report_chunks.json''
               (take 7 (ops (snd (process_markdown_file_run demo_world demo_request)))))"
    by code_simp
  from C2_no_lock_no_rename [of demo_world demo_request] h p o show ?thesis
    by simp
qed

section \<open>Properties of the direct chunking of JSON files\<close>

lemma build_chunks_array:
  "build_chunks source_name formatted (JArr items)
     = map (array_item_chunk source_name) (zip [0 ..< length items] items)"
  by (simp add: build_chunks_def)

text \<open>
  Claim C4 as stated fails when no tokenizer can be loaded for \<open>embedding_model\<close>: the
  function loads the tokenizer before it parses, the handler catches the exception, and
  for the file \<open>[{"a":1},{"a":2}]\<close>, which parses to an array of two elements, the
  call returns 0 and writes no output file.
\<close>

theorem C4_counterexample:
  "json_file no_tokenizer_world = Some two_items_text
   \<and> json_loads no_tokenizer_world two_items_text
       = Some (JArr [JObj [(''a'', JNum 1)], JObj [(''a'', JNum 2)]])
   \<and> returned (chunk_json_directly no_tokenizer_world ''data.json'' None Missing) = 0
   \<and> output_after (chunk_json_directly no_tokenizer_world ''data.json'' None Missing) = Missing"
  by (simp add: no_tokenizer_world_def two_items_world_def two_items_def
      chunk_json_directly_def chunk_json_body_def)

text \<open>
  Claim C4, as amended. For a file that can be read and whose text parses to a JSON
  array of N elements: when the tokenizer loads, the output file can be opened and
  \<open>json.dump\<close> can encode the chunks, N chunks are written to the output file in the
  order of the elements, the chunk at position i holds the serialised i-th element, has
  content type \<open>json_array_item\<close> and chunk index i, and the value returned is N; when
  the tokenizer does not load or the output file cannot be opened, the value returned
  is 0 and the output path is left as it was; in every case the conversion engine is
  not called.
\<close>

theorem C4_json_array_chunks:
  assumes "json_file world = Some text"
    and "json_loads world text = Some (JArr items)"
  shows "(tokenizer_loads world \<and> output_opens world \<and> dump_encodes world \<longrightarrow>
            (\<exists>chunks.
               output_after (chunk_json_directly world source_name temp_file before)
                 = ChunkList chunks
               \<and> returned (chunk_json_directly world source_name temp_file before)
                   = length items
               \<and> length chunks = length items
               \<and> (\<forall>i < length items.
                     content (chunks ! i) = Dumped (items ! i)
                     \<and> content_type (chunks ! i) = ''json_array_item''
                     \<and> chunk_index (chunks ! i) = Some i)))
         \<and> (\<not> tokenizer_loads world \<or> \<not> output_opens world \<longrightarrow>
               returned (chunk_json_directly world source_name temp_file before) = 0
               \<and> output_after (chunk_json_directly world source_name temp_file before) = before)
         \<and> ConverterConvert
             \<notin> set (calls (chunk_json_directly world source_name temp_file before))"
proof -
  let ?chunks = "map (array_item_chunk source_name) (zip [0 ..< length items] items)"
  let ?r = "chunk_json_directly world source_name temp_file before"
  have good: "\<exists>chunks.
      output_after ?r = ChunkList chunks \<and> returned ?r = length items
      \<and> length chunks = length items
      \<and> (\<forall>i < length items.
            content (chunks ! i) = Dumped (items ! i)
            \<and> content_type (chunks ! i) = ''json_array_item''
            \<and> chunk_index (chunks ! i) = Some i)"
    if ok: "tokenizer_loads world" "output_opens world" "dump_encodes world"
  proof -
    have body: "chunk_json_body world source_name
                  = ([ReadInput, LoadTokenizer, JsonLoads, OpenOutput, JsonDump], Inr ?chunks)"
      using assms ok by (simp add: chunk_json_body_def build_chunks_array)
    have out: "output_after ?r = ChunkList ?chunks"
      and ret: "returned ?r = length items"
      by (simp_all add: chunk_json_directly_def body)
    have each: "content (?chunks ! i) = Dumped (items ! i)
                \<and> content_type (?chunks ! i) = ''json_array_item''
                \<and> chunk_index (?chunks ! i) = Some i" if "i < length items" for i
      using that by (simp add: array_item_chunk_def)
    from out ret each show ?thesis
      by (intro exI [of _ ?chunks]) simp
  qed
  have bad: "returned ?r = 0 \<and> output_after ?r = before"
    if "\<not> tokenizer_loads world \<or> \<not> output_opens world"
    using assms that by (auto simp: chunk_json_directly_def chunk_json_body_def Let_def)
  have cal: "ConverterConvert \<notin> set (calls ?r)"
    using assms
    by (auto simp: chunk_json_directly_def chunk_json_body_def Let_def
        split: option.splits if_splits)
  from good bad cal show ?thesis by blast
qed

text \<open>
  The instance of C4 at the file \<open>[{"a":1},{"a":2}]\<close>: two chunks of content type
  \<open>json_array_item\<close>, with chunk index 0 and 1, in the order of the input.
\<close>

theorem C4_json_array_chunks_witness:
  "returned (chunk_json_directly two_items_world ''data.json'' None Missing) = 2
   \<and> (\<exists>chunks.
         output_after (chunk_json_directly two_items_world ''data.json'' None Missing)
           = ChunkList chunks
         \<and> map content chunks = [Dumped (JObj [(''a'', JNum 1)]), Dumped (JObj [(''a'', JNum 2)])]
         \<and> map content_type chunks = [''json_array_item'', ''json_array_item'']
         \<and> map chunk_index chunks = [Some 0, Some 1])
   \<and> ConverterConvert
       \<notin> set (calls (chunk_json_directly two_items_world ''data.json'' None Missing))"
proof -
  let ?items = "[JObj [(''a'', JNum 1)], JObj [(''a'', JNum 2)]]"
  have h1: "json_file two_items_world = Some two_items_text"
    and h4: "json_loads two_items_world two_items_text = Some (JArr ?items)"
    and h2: "tokenizer_loads two_items_world \<and> output_opens two_items_world
             \<and> dump_encodes two_items_world"
    by (simp_all add: two_items_world_def two_items_def)
  from C4_json_array_chunks [OF h1 h4, of "''data.json''" None Missing] h2
  obtain chunks where
    c: "output_after (chunk_json_directly two_items_world ''data.json'' None Missing)
          = ChunkList chunks"
      "returned (chunk_json_directly two_items_world ''data.json'' None Missing) = length ?items"
      "length chunks = length ?items"
      "\<forall>i < length ?items.
          content (chunks ! i) = Dumped (?items ! i)
          \<and> content_type (chunks ! i) = ''json_array_item''
          \<and> chunk_index (chunks ! i) = Some i"
    and k: "ConverterConvert
         \<notin> set (calls (chunk_json_directly two_items_world ''data.json'' None Missing))"
    by blast
  from c(3) obtain c0 c1 where l: "chunks = [c0, c1]"
    by (cases chunks; cases "tl chunks"; cases "tl (tl chunks)") auto
  from c(4) have "content (chunks ! 0) = Dumped (?items ! 0)
                  \<and> content_type (chunks ! 0) = ''json_array_item''
                  \<and> chunk_index (chunks ! 0) = Some 0"
    and "content (chunks ! 1) = Dumped (?items ! 1)
         \<and> content_type (chunks ! 1) = ''json_array_item''
         \<and> chunk_index (chunks ! 1) = Some 1"
    by simp_all
  with l have m: "map content chunks = [Dumped (JObj [(''a'', JNum 1)]), Dumped (JObj [(''a'', JNum 2)])]
      \<and> map content_type chunks = [''json_array_item'', ''json_array_item'']
      \<and> map chunk_index chunks = [Some 0, Some 1]"
    by simp
  from c(1,2) k m show ?thesis by simp
qed

text \<open>
  Claim C10. For a file whose text does not parse as JSON, \<open>chunk_json_directly\<close>
  returns 0 and leaves the output path as it was, without opening it: when the tokenizer
  has loaded, the exception that ends the call is the \<open>UnboundLocalError\<close> raised by
  the test of \<open>json_data\<close>, which the failed parse left unbound, so the raw text kept in
  \<open>formatted_content\<close> is never made a chunk.
\<close>

theorem C10_parse_failure_returns_zero:
  assumes "json_file world = Some text"
    and "json_loads world text = None"
  shows "returned (chunk_json_directly world source_name temp_file before) = 0
         \<and> output_after (chunk_json_directly world source_name temp_file before) = before
         \<and> OpenOutput \<notin> set (calls (chunk_json_directly world source_name temp_file before))
         \<and> JsonDump \<notin> set (calls (chunk_json_directly world source_name temp_file before))
         \<and> (tokenizer_loads world \<longrightarrow>
               failure (chunk_json_directly world source_name temp_file before)
                 = Some UnboundLocalError)"
  using assms
  by (simp add: chunk_json_directly_def chunk_json_body_def Let_def)

text \<open>
  The instance of C10 at a file holding \<open>{"a":\<close>, with an earlier output file in place.
\<close>

theorem C10_parse_failure_returns_zero_witness:
  "returned (chunk_json_directly broken_world ''data.json'' None (Earlier ''[]'')) = 0
   \<and> output_after (chunk_json_directly broken_world ''data.json'' None (Earlier ''[]''))
       = Earlier ''[]''
   \<and> failure (chunk_json_directly broken_world ''data.json'' None (Earlier ''[]''))
       = Some UnboundLocalError"
proof -
  have h1: "json_file broken_world = Some (''{'' @ dq @ ''a'' @ dq @ '':'')"
    and h2: "json_loads broken_world (''{'' @ dq @ ''a'' @ dq @ '':'') = None"
    and h3: "tokenizer_loads broken_world"
    by (simp_all add: broken_world_def)
  from C10_parse_failure_returns_zero [OF h1 h2, of "''data.json''" None "Earlier ''[]''"] h3
  show ?thesis by simp
qed

section \<open>Properties of the pipeline\<close>

lemma process_result_source: "result_source (fst (process pl ocr out job)) = input_source job"
  by (simp add: process_def Let_def split: ocr_outcome.splits)

text \<open>
  One result per source, in the order of the sources.
\<close>

lemma process_batch_serial_sources:
  "map result_source (fst (process_batch_serial pl ocr output_dir jobs)) = map input_source jobs"
proof (induction jobs arbitrary: pl)
  case Nil
  show ?case by simp
next
  case (Cons job rest)
  obtain r pl1 where
    p: "process pl ocr (pathlib_join output_dir (source_stem job @ ''_chunks.json'')) job = (r, pl1)"
    by (cases "process pl ocr (pathlib_join output_dir (source_stem job @ ''_chunks.json'')) job")
  obtain rs pl2 where q: "process_batch_serial pl1 ocr output_dir rest = (rs, pl2)"
    by (cases "process_batch_serial pl1 ocr output_dir rest")
  from process_result_source [of pl ocr _ job] p have "result_source r = input_source job"
    by (metis fst_conv)
  moreover from Cons [of pl1] q have "map result_source rs = map input_source rest"
    by simp
  ultimately show ?case by (simp add: p q)
qed

text \<open>
  Claim C5 fails on the code. A pipeline made without \<open>temp_dir\<close> runs a batch of two
  sources with \<open>max_concurrent = 1\<close>: a path with no file behind it, then a PDF that
  converts and chunks well. The first job fails, and its \<open>finally\<close> clause removes the
  temporary directory of the pipeline; the conversion of the second job can then not
  save its markdown, and the second job is reported as failed too, although the same
  source processed alone succeeds with three chunks. Besides, a markdown path with no
  file behind it is reported as a success with 0 chunks: \<open>process_markdown_file\<close>
  catches the error and returns 0.
\<close>

theorem C5_sibling_fails_after_cleanup:
  "map success (fst (process_batch_serial default_pipeline False ''out'' [missing_pdf, report_pdf]))
     = [False, False]
   \<and> fst (process default_pipeline False ''out/report_chunks.json'' report_pdf)
       = Succeeded ''report.pdf'' ''out/report_chunks.json'' 3 0
   \<and> temp_dir_exists (snd (process default_pipeline False ''out/missing_chunks.json'' missing_pdf))
       = False
   \<and> fst (process default_pipeline False ''out/notes_chunks.json'' missing_md)
       = Succeeded ''notes.md'' ''out/notes_chunks.json'' 0 0"
  by code_simp

section \<open>Properties of the admission gate\<close>

lemma start_task_balance:
  "s' \<in> set (start_task s) \<Longrightarrow>
   length (in_flight s') + semaphore_value s' = length (in_flight s) + semaphore_value s"
  by (cases "not_started s") (auto simp: start_task_def split: if_splits)

lemma wake_task_balance:
  "s' \<in> set (wake_task s) \<Longrightarrow>
   length (in_flight s') + semaphore_value s' = length (in_flight s) + semaphore_value s"
  by (cases "waiting s") (auto simp: wake_task_def split: if_splits)

lemma finish_task_balance:
  assumes "s' \<in> set (finish_task s)"
  shows "length (in_flight s') + semaphore_value s' = length (in_flight s) + semaphore_value s"
proof -
  from assms obtain t where t: "t \<in> set (in_flight s)"
    and s': "s' = s\<lparr>in_flight := remove1 t (in_flight s),
                     semaphore_value := semaphore_value s + 1,
                     returned_tasks := returned_tasks s @ [t]\<rparr>"
    by (auto simp: finish_task_def)
  from t have "length (remove1 t (in_flight s)) = length (in_flight s) - 1"
    by (simp add: length_remove1)
  moreover from t have "0 < length (in_flight s)" by (cases "in_flight s") auto
  ultimately show ?thesis using s' by simp
qed

lemma next_states_balance:
  assumes "s' \<in> set (next_states s)"
    and "length (in_flight s) + semaphore_value s = m"
  shows "length (in_flight s') + semaphore_value s' = m"
  using assms start_task_balance [of s' s] wake_task_balance [of s' s]
    finish_task_balance [of s' s]
  by (auto simp: next_states_def)

lemma reachable_balance:
  "reachable max_concurrent n s \<Longrightarrow> length (in_flight s) + semaphore_value s = max_concurrent"
proof (induction rule: reachable.induct)
  case init
  show ?case by (simp add: initial_batch_def)
next
  case (step s s')
  then show ?case by (simp add: next_states_balance)
qed

text \<open>
  Claim C9. In every state a batch can reach, the number of tasks inside the
  \<open>async with semaphore\<close> block, that is, of calls of \<open>process\<close> that have started
  and not returned, is at most \<open>max_concurrent\<close>: a task enters only by taking a unit
  of the semaphore and gives it back when \<open>process\<close> returns.
\<close>

theorem C9_at_most_max_concurrent:
  assumes "reachable max_concurrent n s"
  shows "length (in_flight s) \<le> max_concurrent"
  using reachable_balance [OF assms] by simp

text \<open>
  The instance of C9 at a batch of 10 sources with \<open>max_concurrent = 3\<close>, after four
  tasks have started: three are in flight and the fourth waits.
\<close>

theorem C9_at_most_max_concurrent_witness:
  "reachable 3 10
     \<lparr>semaphore_value = 0, waiting = [3], in_flight = [0, 1, 2],
      not_started = [4, 5, 6, 7, 8, 9], returned_tasks = []\<rparr>
   \<and> length (in_flight
       \<lparr>semaphore_value = 0, waiting = [3], in_flight = [0, 1, 2],
        not_started = [4, 5, 6, 7, 8, 9], returned_tasks = []\<rparr>) \<le> 3"
proof -
  let ?s0 = "initial_batch 3 10"
  let ?s1 = "\<lparr>semaphore_value = 2, waiting = [], in_flight = [0],
              not_started = [1, 2, 3, 4, 5, 6, 7, 8, 9], returned_tasks = []\<rparr>"
  let ?s2 = "\<lparr>semaphore_value = 1, waiting = [], in_flight = [0, 1],
              not_started = [2, 3, 4, 5, 6, 7, 8, 9], returned_tasks = []\<rparr>"
  let ?s3 = "\<lparr>semaphore_value = 0, waiting = [], in_flight = [0, 1, 2],
              not_started = [3, 4, 5, 6, 7, 8, 9], returned_tasks = []\<rparr>"
  let ?s4 = "\<lparr>semaphore_value = 0, waiting = [3], in_flight = [0, 1, 2],
              not_started = [4, 5, 6, 7, 8, 9], returned_tasks = []\<rparr>"
  have e0: "?s1 \<in> set (next_states ?s0)" by code_simp
  have e1: "?s2 \<in> set (next_states ?s1)" by code_simp
  have e2: "?s3 \<in> set (next_states ?s2)" by code_simp
  have e3: "?s4 \<in> set (next_states ?s3)" by code_simp
  have "reachable 3 10 ?s0" by (rule reachable.init)
  then have "reachable 3 10 ?s1" using e0 by (rule reachable.step)
  then have "reachable 3 10 ?s2" using e1 by (rule reachable.step)
  then have "reachable 3 10 ?s3" using e2 by (rule reachable.step)
  then have r: "reachable 3 10 ?s4" using e3 by (rule reachable.step)
  from C9_at_most_max_concurrent [OF r] r show ?thesis by simp
qed


end
